theory Spec2Isabelle
  imports Complex_Main "HOL-Library.Sublist"
begin

section \<open>Python strings and the string methods the handler uses\<close>

text \<open>
  A Python \<open>str\<close> is a sequence of Unicode code points, so a string is a list of
  code points (natural numbers) here. \<open>ascii\<close> turns a literal of the theory into
  such a string.
\<close>

type_synonym pystr = "nat list"

definition ascii :: "string \<Rightarrow> pystr" where
  "ascii s = map of_char s"

definition comma :: nat where "comma = 44"
definition colon :: nat where "colon = 58"
definition newline :: nat where "newline = 10"

text \<open>
  The characters \<open>str.strip()\<close> removes when it is called without argument: those for
  which \<open>str.isspace\<close> holds (U+0009..U+000D, U+001C..U+0020, U+0085, U+00A0, U+1680,
  U+2000..U+200A, U+2028, U+2029, U+202F, U+205F, U+3000).
\<close>

definition is_space :: "nat \<Rightarrow> bool" where
  "is_space c \<longleftrightarrow>
     (9 \<le> c \<and> c \<le> 13) \<or> (28 \<le> c \<and> c \<le> 32) \<or> c = 133 \<or> c = 160 \<or> c = 5760 \<or>
     (8192 \<le> c \<and> c \<le> 8202) \<or> c = 8232 \<or> c = 8233 \<or> c = 8239 \<or> c = 8287 \<or> c = 12288"

text \<open>\<open>s.strip()\<close>\<close>

definition strip :: "pystr \<Rightarrow> pystr" where
  "strip s = rev (dropWhile is_space (rev (dropWhile is_space s)))"

text \<open>\<open>s.lstrip(chars)\<close>: drops the longest prefix made of characters of \<open>chars\<close>.\<close>

definition lstrip_chars :: "pystr \<Rightarrow> pystr \<Rightarrow> pystr" where
  "lstrip_chars chars s = dropWhile (\<lambda>c. c \<in> set chars) s"

text \<open>
  \<open>s.split(sep)\<close> for a separator of one character, the only kind the handler uses.
  The result has one more element than \<open>s\<close> has separators, so it is never empty.
\<close>

fun split_on :: "nat \<Rightarrow> pystr \<Rightarrow> pystr list" where
  "split_on sep [] = [[]]"
| "split_on sep (c # cs) =
     (if c = sep then [] # split_on sep cs
      else (case split_on sep cs of [] \<Rightarrow> [[c]] | w # ws \<Rightarrow> (c # w) # ws))"

text \<open>
  \<open>s.replace(old, new)\<close>: every occurrence of \<open>old\<close>, found from left to right
  without overlap, is replaced. With an empty \<open>old\<close> Python puts \<open>new\<close> before
  every character and at the end.
\<close>

function replace :: "pystr \<Rightarrow> pystr \<Rightarrow> pystr \<Rightarrow> pystr" where
  "replace old new [] = (if old = [] then new else [])"
| "replace old new (c # cs) =
     (if old = [] then new @ c # replace old new cs
      else if prefix old (c # cs) then new @ replace old new (drop (length old) (c # cs))
      else c # replace old new cs)"
  by pat_completeness auto
termination
  by (relation "measure (\<lambda>(old, new, s). length s)") (auto simp: Suc_le_eq)

text \<open>\<open>sep.join(xs)\<close>\<close>

fun join :: "pystr \<Rightarrow> pystr list \<Rightarrow> pystr" where
  "join sep [] = []"
| "join sep [x] = x"
| "join sep (x # y # ys) = x @ sep @ join sep (y # ys)"

section \<open>Values and exceptions\<close>

text \<open>
  The values the handler works on all come out of \<open>json.loads\<close>: \<open>None\<close>, booleans,
  integers, floats, strings, lists and dictionaries with string keys. A dictionary is
  an association list holding each key once. A float is represented by the real number
  it stands for; the handler only ever tests one for being zero.
\<close>

datatype json =
    JNull
  | JBool bool
  | JInt int
  | JFloat real
  | JStr pystr
  | JArr "json list"
  | JObj "(pystr \<times> json) list"

text \<open>An exception caught by \<open>except Exception\<close>: its class and the text \<open>str(e)\<close>.\<close>

datatype exn = Exn (exn_class: string) (exn_text: pystr)

fun type_name :: "json \<Rightarrow> string" where
  "type_name JNull = ''NoneType''"
| "type_name (JBool b) = ''bool''"
| "type_name (JInt n) = ''int''"
| "type_name (JFloat r) = ''float''"
| "type_name (JStr s) = ''str''"
| "type_name (JArr xs) = ''list''"
| "type_name (JObj kvs) = ''dict''"

definition quoted :: "pystr \<Rightarrow> pystr" where
  "quoted s = 39 # s @ [39]"

definition no_attribute :: "json \<Rightarrow> string \<Rightarrow> exn" where
  "no_attribute v attr =
     Exn ''AttributeError''
       (quoted (ascii (type_name v)) @ ascii '' object has no attribute '' @ quoted (ascii attr))"

definition not_iterable :: "json \<Rightarrow> exn" where
  "not_iterable v =
     Exn ''TypeError'' (quoted (ascii (type_name v)) @ ascii '' object is not iterable'')"

text \<open>Truth value of a value, as \<open>not v\<close> tests it.\<close>

fun truthy :: "json \<Rightarrow> bool" where
  "truthy JNull = False"
| "truthy (JBool b) = b"
| "truthy (JInt n) = (n \<noteq> 0)"
| "truthy (JFloat r) = (r \<noteq> 0)"
| "truthy (JStr s) = (s \<noteq> [])"
| "truthy (JArr xs) = (xs \<noteq> [])"
| "truthy (JObj kvs) = (kvs \<noteq> [])"

text \<open>\<open>d.get(key, default)\<close>; only a dictionary has the method.\<close>

definition dict_get :: "json \<Rightarrow> pystr \<Rightarrow> json \<Rightarrow> exn + json" where
  "dict_get d key dflt =
     (case d of
        JObj kvs \<Rightarrow> (case map_of kvs key of None \<Rightarrow> Inr dflt | Some v \<Rightarrow> Inr v)
      | _ \<Rightarrow> Inl (no_attribute d ''get''))"

text \<open>
  What a \<open>for\<close> loop over a value visits: the elements of a list, the characters of a
  string (each a string of length one), the keys of a dictionary.
\<close>

definition iterate :: "json \<Rightarrow> exn + json list" where
  "iterate v =
     (case v of
        JArr xs \<Rightarrow> Inr xs
      | JStr s \<Rightarrow> Inr (map (\<lambda>c. JStr [c]) s)
      | JObj kvs \<Rightarrow> Inr (map (\<lambda>kv. JStr (fst kv)) kvs)
      | _ \<Rightarrow> Inl (not_iterable v))"

text \<open>\<open>xs[-1]\<close>\<close>

definition index_last :: "'a list \<Rightarrow> exn + 'a" where
  "index_last xs =
     (case xs of [] \<Rightarrow> Inl (Exn ''IndexError'' (ascii ''list index out of range''))
      | _ \<Rightarrow> Inr (last xs))"

section \<open>clean_skills\<close>

definition skills_marker :: pystr where
  "skills_marker = ascii ''SKILLS:''"

text \<open>
  The inner loop over \<open>parts\<close>, with the list \<open>cleaned_skills\<close> built so far.
\<close>

fun clean_parts :: "pystr list \<Rightarrow> pystr list \<Rightarrow> exn + pystr list" where
  "clean_parts [] cleaned_skills = Inr cleaned_skills"
| "clean_parts (part # parts) cleaned_skills =
     (case index_last (split_on colon (strip part)) of
        Inl e \<Rightarrow> Inl e
      | Inr seg \<Rightarrow>
          (let cleaned_skill = strip seg
           in clean_parts parts
                (if cleaned_skill \<noteq> [] then cleaned_skills @ [cleaned_skill]
                 else cleaned_skills)))"

text \<open>
  The outer loop over \<open>skills_list\<close>. An element that is not a string has no
  \<open>replace\<close> method.
\<close>

fun clean_entries :: "json list \<Rightarrow> pystr list \<Rightarrow> exn + pystr list" where
  "clean_entries [] cleaned_skills = Inr cleaned_skills"
| "clean_entries (skill # rest) cleaned_skills =
     (case skill of
        JStr s \<Rightarrow>
          (case clean_parts (split_on comma (replace skills_marker [] s)) cleaned_skills of
             Inl e \<Rightarrow> Inl e
           | Inr cleaned_skills' \<Rightarrow> clean_entries rest cleaned_skills')
      | _ \<Rightarrow> Inl (no_attribute skill ''replace''))"

definition clean_skills :: "json \<Rightarrow> exn + pystr list" where
  "clean_skills skills_list =
     (case iterate skills_list of
        Inl e \<Rightarrow> Inl e
      | Inr items \<Rightarrow> clean_entries items [])"

section \<open>The handler's collaborators\<close>

text \<open>
  The handler calls the JSON library, the process environment, the object store and
  the language-model chain. None of them is code of the handler, so each is a field
  of the record \<open>world\<close>: what the call returns, or the exception it raises. The
  collaborators are taken to raise exceptions derived from \<open>Exception\<close> only.

  \<^item> \<open>json_loads\<close>: \<open>json.loads\<close> on a string;
  \<^item> \<open>json_dumps\<close>: \<open>json.dumps\<close>;
  \<^item> \<open>format_value\<close>: the text an f-string puts for a value that is not a string;
  \<^item> \<open>environ\<close>: \<open>os.environ\<close>;
  \<^item> \<open>s3_client\<close>: \<open>boto3.client('s3')\<close>, \<open>None\<close> when it succeeds;
  \<^item> \<open>s3_read\<close>: \<open>s3.get_object(Bucket=b, Key=k)['Body'].read().decode('utf-8')\<close>;
  \<^item> \<open>bedrock_client\<close>, \<open>bedrock_llm\<close>, \<open>prompt_template\<close>, \<open>llm_chain\<close>: the
    constructors \<open>boto3.client(service_name='bedrock-runtime', ...)\<close>, \<open>Bedrock(...)\<close>,
    \<open>PromptTemplate(...)\<close> and \<open>LLMChain(...)\<close>, \<open>None\<close> when they succeed;
  \<^item> \<open>chain_run\<close>: \<open>chain.run({"skills": s, "projects": p})\<close>.
\<close>

record world =
  json_loads :: "pystr \<Rightarrow> exn + json"
  json_dumps :: "json \<Rightarrow> pystr"
  format_value :: "json \<Rightarrow> pystr"
  environ :: "pystr \<rightharpoonup> pystr"
  s3_client :: "exn option"
  s3_read :: "pystr \<Rightarrow> pystr \<Rightarrow> exn + pystr"
  bedrock_client :: "exn option"
  bedrock_llm :: "exn option"
  prompt_template :: "exn option"
  llm_chain :: "exn option"
  chain_run :: "pystr \<Rightarrow> json \<Rightarrow> exn + pystr"

text \<open>The calls that leave the process, in the order the handler makes them.\<close>

datatype call = S3GetObject pystr pystr | ChainRun pystr json

fun is_inference :: "call \<Rightarrow> bool" where
  "is_inference (ChainRun s p) = True"
| "is_inference (S3GetObject b k) = False"

fun is_storage_read :: "call \<Rightarrow> bool" where
  "is_storage_read (S3GetObject b k) = True"
| "is_storage_read (ChainRun s p) = False"

section \<open>lambda_handler\<close>

record response =
  statusCode :: int
  body :: pystr
  headers :: "(pystr \<times> pystr) list"

definition cors_headers :: "(pystr \<times> pystr) list" where
  "cors_headers =
     [(ascii ''Access-Control-Allow-Origin'', ascii ''*''),
      (ascii ''Content-Type'', ascii ''application/json'')]"

text \<open>The response every error path builds: \<open>json.dumps({'error': msg})\<close> as body.\<close>

definition error_response :: "world \<Rightarrow> int \<Rightarrow> pystr \<Rightarrow> response" where
  "error_response w code msg =
     \<lparr>statusCode = code,
      body = json_dumps w (JObj [(ascii ''error'', JStr msg)]),
      headers = cors_headers\<rparr>"

text \<open>
  A block of statements inside the \<open>try\<close> ends in one of three ways: it raises, it
  returns a response, or it goes on to the next statement with the values computed.
\<close>

datatype 'a outcome = Raise exn | Return response | Continue 'a

text \<open>\<open>json.loads(v)\<close> on a value of an event: only a string is accepted.\<close>

definition loads_value :: "world \<Rightarrow> json \<Rightarrow> exn + json" where
  "loads_value w v =
     (case v of
        JStr s \<Rightarrow> json_loads w s
      | _ \<Rightarrow> Inl (Exn ''TypeError''
                 (ascii ''the JSON object must be str, bytes or bytearray, not ''
                  @ ascii (type_name v))))"

text \<open>
  Lines 24 and 25: \<open>body = json.loads(event.get('body', '{}'))\<close> and
  \<open>user_id = body.get('userId')\<close>.
\<close>

definition get_user_id :: "world \<Rightarrow> json \<Rightarrow> exn + json" where
  "get_user_id w event =
     (case dict_get event (ascii ''body'') (JStr (ascii ''{}'')) of
        Inl e \<Rightarrow> Inl e
      | Inr raw_body \<Rightarrow>
          (case loads_value w raw_body of
             Inl e \<Rightarrow> Inl e
           | Inr parsed_body \<Rightarrow> dict_get parsed_body (ascii ''userId'') JNull))"

text \<open>\<open>f'generated/{user_id}_parsed.json'\<close>\<close>

definition file_key :: "world \<Rightarrow> json \<Rightarrow> pystr" where
  "file_key w user_id =
     ascii ''generated/''
     @ (case user_id of JStr s \<Rightarrow> s | _ \<Rightarrow> format_value w user_id)
     @ ascii ''_parsed.json''"

text \<open>The body of the inner \<open>try\<close> (lines 43 to 45).\<close>

definition read_parsed_data :: "world \<Rightarrow> pystr \<Rightarrow> json \<Rightarrow> exn + json" where
  "read_parsed_data w bucket_name user_id =
     (case s3_read w bucket_name (file_key w user_id) of
        Inl e \<Rightarrow> Inl e
      | Inr text \<Rightarrow> json_loads w text)"

text \<open>
  Lines 24 to 54: validation of the request and the storage read. The block goes on
  with \<open>parsed_data\<close>.
\<close>

definition fetch_stage :: "world \<Rightarrow> json \<Rightarrow> json outcome \<times> call list" where
  "fetch_stage w event =
     (case get_user_id w event of
        Inl e \<Rightarrow> (Raise e, [])
      | Inr user_id \<Rightarrow>
          if \<not> truthy user_id
          then (Return (error_response w 400 (ascii ''userId is required'')), [])
          else
            (case s3_client w of
               Some e \<Rightarrow> (Raise e, [])
             | None \<Rightarrow>
                 (case environ w (ascii ''BUCKET_NAME'') of
                    None \<Rightarrow> (Raise (Exn ''KeyError'' (quoted (ascii ''BUCKET_NAME''))), [])
                  | Some bucket_name \<Rightarrow>
                      (case read_parsed_data w bucket_name user_id of
                         Inl e \<Rightarrow>
                           (Return (error_response w 404
                                      (ascii ''Failed to retrieve parsed data: '' @ exn_text e)),
                            [S3GetObject bucket_name (file_key w user_id)])
                       | Inr parsed_data \<Rightarrow>
                           (Continue parsed_data,
                            [S3GetObject bucket_name (file_key w user_id)])))))"

text \<open>Lines 57 and 58.\<close>

definition extract_skills :: "json \<Rightarrow> exn + pystr list" where
  "extract_skills parsed_data =
     (case dict_get parsed_data (ascii ''skills'') (JArr []) of
        Inl e \<Rightarrow> Inl e
      | Inr raw_skills \<Rightarrow> clean_skills raw_skills)"

text \<open>
  The characters line 115 strips from the front of a question: the digits, \<open>.\<close>, \<open>)\<close>,
  \<open>-\<close>, the three characters U+201A, U+00F3, U+00E8 of the source text, and the space.
\<close>

definition question_markers :: pystr where
  "question_markers = ascii ''0123456789.)-'' @ [8218, 243, 232] @ ascii '' ''"

text \<open>Lines 114 to 118.\<close>

definition split_questions :: "pystr \<Rightarrow> pystr list" where
  "split_questions result =
     [lstrip_chars question_markers (strip q). q \<leftarrow> split_on newline (strip result), strip q \<noteq> []]"

definition success_response :: "world \<Rightarrow> pystr list \<Rightarrow> pystr list \<Rightarrow> response" where
  "success_response w questions skills =
     \<lparr>statusCode = 200,
      body = json_dumps w (JObj [(ascii ''questions'', JArr (map JStr questions)),
                                 (ascii ''skills_used'', JArr (map JStr skills))]),
      headers = cors_headers\<rparr>"

text \<open>
  Lines 70 to 131, with the non-empty \<open>skills\<close>: the clients, the prompt, the call of
  the model and the response built from its answer.
\<close>

definition ask_model :: "world \<Rightarrow> json \<Rightarrow> pystr list \<Rightarrow> (exn + response) \<times> call list" where
  "ask_model w parsed_data skills =
     (case bedrock_client w of
        Some e \<Rightarrow> (Inl e, [])
      | None \<Rightarrow>
     (case bedrock_llm w of
        Some e \<Rightarrow> (Inl e, [])
      | None \<Rightarrow>
     (let skills_str = join (ascii '', '') skills in
      case dict_get parsed_data (ascii ''projects'') (JStr []) of
        Inl e \<Rightarrow> (Inl e, [])
      | Inr projects_str \<Rightarrow>
     (case prompt_template w of
        Some e \<Rightarrow> (Inl e, [])
      | None \<Rightarrow>
     (case llm_chain w of
        Some e \<Rightarrow> (Inl e, [])
      | None \<Rightarrow>
     (case chain_run w skills_str projects_str of
        Inl e \<Rightarrow> (Inl e, [ChainRun skills_str projects_str])
      | Inr result \<Rightarrow>
          (Inr (success_response w (split_questions result) skills),
           [ChainRun skills_str projects_str])))))))"

text \<open>Lines 56 to 131: everything after the storage read.\<close>

definition generate_stage :: "world \<Rightarrow> json \<Rightarrow> (exn + response) \<times> call list" where
  "generate_stage w parsed_data =
     (case extract_skills parsed_data of
        Inl e \<Rightarrow> (Inl e, [])
      | Inr skills \<Rightarrow>
          if skills = []
          then (Inr (error_response w 400 (ascii ''No skills found in parsed data'')), [])
          else ask_model w parsed_data skills)"

text \<open>
  The body of the outer \<open>try\<close>: it raises or returns a response, since its last
  statement is a \<open>return\<close>.
\<close>

definition try_body :: "world \<Rightarrow> json \<Rightarrow> (exn + response) \<times> call list" where
  "try_body w event =
     (case fetch_stage w event of
        (Raise e, calls) \<Rightarrow> (Inl e, calls)
      | (Return r, calls) \<Rightarrow> (Inr r, calls)
      | (Continue parsed_data, calls) \<Rightarrow>
          (case generate_stage w parsed_data of (res, calls') \<Rightarrow> (res, calls @ calls')))"

text \<open>The response of the \<open>except Exception\<close> clause at the end.\<close>

definition internal_error :: "world \<Rightarrow> exn \<Rightarrow> response" where
  "internal_error w e = error_response w 500 (ascii ''Internal server error: '' @ exn_text e)"

text \<open>
  The handler: the outer \<open>try\<close> with its \<open>except\<close> clause. The second component
  lists the outside calls made, in order.
\<close>

definition lambda_handler :: "world \<Rightarrow> json \<Rightarrow> response \<times> call list" where
  "lambda_handler w event =
     (case try_body w event of
        (Inl e, calls) \<Rightarrow> (internal_error w e, calls)
      | (Inr r, calls) \<Rightarrow> (r, calls))"

section \<open>A sample world and sample events\<close>

text \<open>
  Concrete collaborators and events, used to run the handler on explicit inputs.
\<close>

definition example_request :: pystr where
  \<open>example_request = ascii ''{"userId": "u1"}''\<close>

definition example_record_text :: pystr where
  \<open>example_record_text = ascii ''{"skills": ["SKILLS: a: x, b: y"], "projects": "p"}''\<close>

definition example_record :: json where
  "example_record =
     JObj [(ascii ''skills'', JArr [JStr (ascii ''SKILLS: a: x, b: y'')]),
           (ascii ''projects'', JStr (ascii ''p''))]"

definition blank_record_text :: pystr where
  \<open>blank_record_text = ascii ''{"skills": ["  ", ""]}''\<close>

definition blank_record :: json where
  "blank_record = JObj [(ascii ''skills'', JArr [JStr (ascii ''  ''), JStr []])]"

definition example_loads :: "pystr \<Rightarrow> exn + json" where
  "example_loads s =
     (if s = ascii ''{}'' then Inr (JObj [])
      else if s = example_request then Inr (JObj [(ascii ''userId'', JStr (ascii ''u1''))])
      else if s = example_record_text then Inr example_record
      else if s = blank_record_text then Inr blank_record
      else Inl (Exn ''JSONDecodeError'' (ascii ''Expecting value'')))"

definition example_answer :: pystr where
  "example_answer = ascii ''1. What is X?\<newline>2) Explain Y\<newline>- Describe Z''"

definition example_world :: world where
  "example_world =
     \<lparr>json_loads = example_loads,
      json_dumps = (\<lambda>j. []),
      format_value = (\<lambda>v. []),
      environ = [ascii ''BUCKET_NAME'' \<mapsto> ascii ''resumes''],
      s3_client = None,
      s3_read = (\<lambda>b k. if b = ascii ''resumes'' \<and> k = ascii ''generated/u1_parsed.json''
                         then Inr example_record_text
                         else Inl (Exn ''NoSuchKey'' (ascii ''The specified key does not exist.''))),
      bedrock_client = None,
      bedrock_llm = None,
      prompt_template = None,
      llm_chain = None,
      chain_run = (\<lambda>s p. Inr example_answer)\<rparr>"

definition example_event :: json where
  "example_event = JObj [(ascii ''body'', JStr example_request)]"

definition no_bucket_world :: world where
  "no_bucket_world = example_world\<lparr>environ := Map.empty\<rparr>"

text \<open>
  A sample \<open>json.dumps\<close> that shows the message of an error body, and worlds that use
  it: a request whose \<open>userId\<close> is empty, a missing object, a record with blank skills,
  a model that times out and a client constructor that fails.
\<close>

definition sample_dumps :: "json \<Rightarrow> pystr" where
  "sample_dumps j =
     (case j of
        JObj [(k, JStr m)] \<Rightarrow> k @ ascii ''='' @ m
      | _ \<Rightarrow> [])"

definition empty_id_request :: pystr where
  \<open>empty_id_request = ascii ''{"userId": ""}''\<close>

definition strict_world :: world where
  "strict_world =
     example_world
       \<lparr>json_loads := \<lambda>s. if s = empty_id_request then Inr (JObj [(ascii ''userId'', JStr [])])
                           else example_loads s,
        json_dumps := sample_dumps\<rparr>"

definition missing_object_world :: world where
  "missing_object_world =
     example_world\<lparr>json_dumps := sample_dumps,
                    s3_read := \<lambda>b k. Inl (Exn ''NoSuchKey'' (ascii ''not found''))\<rparr>"

definition blank_world :: world where
  "blank_world =
     example_world\<lparr>json_dumps := sample_dumps, s3_read := \<lambda>b k. Inr blank_record_text\<rparr>"

definition failing_model_world :: world where
  "failing_model_world =
     example_world\<lparr>json_dumps := sample_dumps,
                    chain_run := \<lambda>s p. Inl (Exn ''ReadTimeoutError'' (ascii ''timed out''))\<rparr>"

definition failing_client_world :: world where
  "failing_client_world =
     example_world\<lparr>json_dumps := sample_dumps,
                    bedrock_client := Some (Exn ''NoRegionError'' (ascii ''no region''))\<rparr>"

section \<open>The reference algorithm for clean_skills\<close>

text \<open>
  The algorithm \<open>clean_skills\<close> is compared with, written after its description: the
  marker is removed from every entry by \<open>remove_marker\<close>, the rest is split on commas,
  of every piece the segment after the last colon is taken and trimmed, the empty
  results are dropped and the others are listed in input order. \<open>remove_leading_marker\<close>
  removes the marker where an entry starts with it; \<open>occurs m s\<close> tells whether \<open>m\<close>
  occurs somewhere in \<open>s\<close>.
\<close>

definition remove_leading_marker :: "pystr \<Rightarrow> pystr" where
  "remove_leading_marker s =
     (if prefix skills_marker s then drop (length skills_marker) s else s)"

definition last_segment :: "pystr \<Rightarrow> pystr" where
  "last_segment piece = strip (last (split_on colon piece))"

definition reference_clean_skills :: "(pystr \<Rightarrow> pystr) \<Rightarrow> pystr list \<Rightarrow> pystr list" where
  "reference_clean_skills remove_marker raw =
     concat (map (\<lambda>entry. filter (\<lambda>t. t \<noteq> [])
                    (map last_segment (split_on comma (remove_marker entry)))) raw)"

fun occurs :: "pystr \<Rightarrow> pystr \<Rightarrow> bool" where
  "occurs m [] = (m = [])"
| "occurs m (c # cs) = (prefix m (c # cs) \<or> occurs m cs)"

section \<open>The shape of the handler's result\<close>

lemma handler_of_raise:
  "try_body w event = (Inl e, calls) \<Longrightarrow> lambda_handler w event = (internal_error w e, calls)"
  by (simp add: lambda_handler_def)

lemma handler_of_return:
  "try_body w event = (Inr r, calls) \<Longrightarrow> lambda_handler w event = (r, calls)"
  by (simp add: lambda_handler_def)

lemma try_body_continue:
  "fetch_stage w event = (Continue parsed_data, calls) \<Longrightarrow>
   try_body w event = (fst (generate_stage w parsed_data), calls @ snd (generate_stage w parsed_data))"
  by (simp add: try_body_def split: prod.splits)

lemma try_body_raise:
  "fetch_stage w event = (Raise e, calls) \<Longrightarrow> try_body w event = (Inl e, calls)"
  by (simp add: try_body_def)

lemma try_body_return:
  "fetch_stage w event = (Return r, calls) \<Longrightarrow> try_body w event = (Inr r, calls)"
  by (simp add: try_body_def)

lemma status_error_response [simp]: "statusCode (error_response w code msg) = code"
  by (simp add: error_response_def)

lemma headers_error_response [simp]: "headers (error_response w code msg) = cors_headers"
  by (simp add: error_response_def)

lemma body_error_response [simp]:
  "body (error_response w code msg) = json_dumps w (JObj [(ascii ''error'', JStr msg)])"
  by (simp add: error_response_def)

lemma fetch_stage_cases:
  "(\<exists>e. fetch_stage w event = (Raise e, [])) \<or>
   fetch_stage w event = (Return (error_response w 400 (ascii ''userId is required'')), []) \<or>
   (\<exists>e b k. fetch_stage w event =
       (Return (error_response w 404 (ascii ''Failed to retrieve parsed data: '' @ exn_text e)),
        [S3GetObject b k])) \<or>
   (\<exists>pd b k. fetch_stage w event = (Continue pd, [S3GetObject b k]))"
  by (auto simp add: fetch_stage_def split: sum.splits option.splits)

lemma ask_model_cases:
  "(\<exists>e calls. ask_model w pd skills = (Inl e, calls)) \<or>
   (\<exists>result projects. chain_run w (join (ascii '', '') skills) projects = Inr result \<and>
      ask_model w pd skills =
        (Inr (success_response w (split_questions result) skills),
         [ChainRun (join (ascii '', '') skills) projects]))"
  by (simp add: ask_model_def Let_def split: sum.splits option.splits)

lemma ask_model_calls:
  "c \<in> set (snd (ask_model w pd skills)) \<Longrightarrow>
   \<exists>projects. c = ChainRun (join (ascii '', '') skills) projects"
  by (auto simp add: ask_model_def Let_def split: sum.splits option.splits)

lemma generate_stage_cases:
  "(\<exists>e calls. generate_stage w pd = (Inl e, calls)) \<or>
   (extract_skills pd = Inr [] \<and>
    generate_stage w pd = (Inr (error_response w 400 (ascii ''No skills found in parsed data'')), [])) \<or>
   (\<exists>skills result projects. extract_skills pd = Inr skills \<and> skills \<noteq> [] \<and>
      chain_run w (join (ascii '', '') skills) projects = Inr result \<and>
      generate_stage w pd =
        (Inr (success_response w (split_questions result) skills),
         [ChainRun (join (ascii '', '') skills) projects]))"
  using ask_model_cases [of w pd]
  by (auto simp add: generate_stage_def split: sum.splits)

lemma generate_stage_calls:
  "c \<in> set (snd (generate_stage w pd)) \<Longrightarrow>
   \<exists>skills projects. extract_skills pd = Inr skills \<and> skills \<noteq> [] \<and>
      c = ChainRun (join (ascii '', '') skills) projects"
  using ask_model_calls [of c w pd]
  by (auto simp add: generate_stage_def split: sum.splits if_splits)


lemma fetch_stage_no_inference:
  "c \<in> set (snd (fetch_stage w event)) \<Longrightarrow> \<not> is_inference c"
  using fetch_stage_cases [of w event] by auto

lemma status_success_response [simp]: "statusCode (success_response w qs sk) = 200"
  by (simp add: success_response_def)

lemma headers_success_response [simp]: "headers (success_response w qs sk) = cors_headers"
  by (simp add: success_response_def)

lemma status_internal_error [simp]: "statusCode (internal_error w e) = 500"
  by (simp add: internal_error_def)

lemma headers_internal_error [simp]: "headers (internal_error w e) = cors_headers"
  by (simp add: internal_error_def)

lemma cors_headers_lookup:
  "map_of cors_headers (ascii ''Access-Control-Allow-Origin'') = Some (ascii ''*'')"
  "map_of cors_headers (ascii ''Content-Type'') = Some (ascii ''application/json'')"
  by (simp_all add: cors_headers_def ascii_def)

lemma handler_shape:
  "(\<exists>e calls. lambda_handler w event = (internal_error w e, calls)) \<or>
   (\<exists>code msg calls. code \<in> {400, 404} \<and>
       lambda_handler w event = (error_response w code msg, calls)) \<or>
   (\<exists>qs sk calls. lambda_handler w event = (success_response w qs sk, calls))"
  using fetch_stage_cases [of w event]
proof (elim disjE exE)
  fix pd b k
  assume f: "fetch_stage w event = (Continue pd, [S3GetObject b k])"
  from generate_stage_cases [of w pd] show ?thesis
  proof (elim disjE exE conjE)
    fix e calls assume "generate_stage w pd = (Inl e, calls)"
    then have "lambda_handler w event = (internal_error w e, [S3GetObject b k] @ calls)"
      by (simp add: try_body_continue [OF f] lambda_handler_def)
    then show ?thesis by (intro disjI1 exI)
  next
    assume "generate_stage w pd =
      (Inr (error_response w 400 (ascii ''No skills found in parsed data'')), [])"
    then have "lambda_handler w event =
      (error_response w 400 (ascii ''No skills found in parsed data''), [S3GetObject b k])"
      by (simp add: try_body_continue [OF f] lambda_handler_def)
    then show ?thesis by (intro disjI2 disjI1 exI conjI) simp_all
  next
    fix skills result projects
    assume "generate_stage w pd =
        (Inr (success_response w (split_questions result) skills),
         [ChainRun (join (ascii '', '') skills) projects])"
    then have "lambda_handler w event =
        (success_response w (split_questions result) skills,
         [S3GetObject b k, ChainRun (join (ascii '', '') skills) projects])"
      by (simp add: try_body_continue [OF f] lambda_handler_def)
    then show ?thesis by (intro disjI2 exI)
  qed
next
  fix e assume "fetch_stage w event = (Raise e, [])"
  then have "lambda_handler w event = (internal_error w e, [])"
    by (simp add: try_body_raise handler_of_raise)
  then show ?thesis by (intro disjI1 exI)
next
  assume "fetch_stage w event = (Return (error_response w 400 (ascii ''userId is required'')), [])"
  then have "lambda_handler w event = (error_response w 400 (ascii ''userId is required''), [])"
    by (simp add: try_body_return handler_of_return)
  then show ?thesis by (intro disjI2 disjI1 exI conjI) simp_all
next
  fix e b k assume "fetch_stage w event =
       (Return (error_response w 404 (ascii ''Failed to retrieve parsed data: '' @ exn_text e)),
        [S3GetObject b k])"
  then have "lambda_handler w event =
       (error_response w 404 (ascii ''Failed to retrieve parsed data: '' @ exn_text e),
        [S3GetObject b k])"
    by (simp add: try_body_return handler_of_return)
  then show ?thesis by (intro disjI2 disjI1 exI conjI) simp_all
qed

lemma body_internal_error:
  "body (internal_error w e) =
     json_dumps w (JObj [(ascii ''error'', JStr (ascii ''Internal server error: '' @ exn_text e))])"
  by (simp add: internal_error_def)

lemma body_success_response:
  "body (success_response w qs sk) =
     json_dumps w (JObj [(ascii ''questions'', JArr (map JStr qs)),
                         (ascii ''skills_used'', JArr (map JStr sk))])"
  by (simp add: success_response_def)

lemma model_call_skills:
  assumes "ChainRun skills_str projects \<in> set (snd (lambda_handler w event))"
  shows "\<exists>pd cs skills. fetch_stage w event = (Continue pd, cs) \<and>
           extract_skills pd = Inr skills \<and> skills \<noteq> [] \<and>
           skills_str = join (ascii '', '') skills"
  using fetch_stage_cases [of w event]
proof (elim disjE exE)
  fix pd b k
  assume f: "fetch_stage w event = (Continue pd, [S3GetObject b k])"
  obtain res cs where g: "generate_stage w pd = (res, cs)" by (cases "generate_stage w pd")
  have "snd (lambda_handler w event) = [S3GetObject b k] @ cs"
    using g by (cases res) (simp_all add: lambda_handler_def try_body_continue [OF f])
  then have "ChainRun skills_str projects \<in> set (snd (generate_stage w pd))"
    using assms g by simp
  then obtain skills pr where "extract_skills pd = Inr skills" "skills \<noteq> []"
    "ChainRun skills_str projects = ChainRun (join (ascii '', '') skills) pr"
    using generate_stage_calls by blast
  then show ?thesis using f by auto
next
  fix e
  assume "fetch_stage w event = (Raise e, [])"
  then have "snd (lambda_handler w event) = []"
    by (simp add: lambda_handler_def try_body_raise)
  then show ?thesis using assms by simp
next
  assume "fetch_stage w event = (Return (error_response w 400 (ascii ''userId is required'')), [])"
  then have "snd (lambda_handler w event) = []"
    by (simp add: lambda_handler_def try_body_return)
  then show ?thesis using assms by simp
next
  fix e b k
  assume "fetch_stage w event =
       (Return (error_response w 404 (ascii ''Failed to retrieve parsed data: '' @ exn_text e)),
        [S3GetObject b k])"
  then have "snd (lambda_handler w event) = [S3GetObject b k]"
    by (simp add: lambda_handler_def try_body_return)
  then show ?thesis using assms by simp
qed

section \<open>Lemmas on the string operations\<close>

lemma split_on_not_Nil: "split_on c s \<noteq> []"
  by (induction s) (auto split: list.split)

lemma split_on_without_sep: "c \<notin> set s \<Longrightarrow> split_on c s = [s]"
  by (induction s) auto

lemma split_on_append_sep: "split_on c (u @ c # v) = split_on c u @ split_on c v"
proof (induction u)
  case Nil
  show ?case by simp
next
  case (Cons x u)
  show ?case
  proof (cases "x = c")
    case True
    then show ?thesis using Cons by simp
  next
    case False
    obtain w ws where w: "split_on c u = w # ws"
      using split_on_not_Nil [of c u] by (cases "split_on c u") auto
    show ?thesis using False Cons w by simp
  qed
qed

lemma last_split_on_without_sep: "c \<notin> set s \<Longrightarrow> last (split_on c s) = s"
  by (simp add: split_on_without_sep)

lemma last_split_on_append_sep:
  "c \<notin> set v \<Longrightarrow> last (split_on c (u @ c # v)) = v"
  by (simp add: split_on_append_sep split_on_without_sep)

lemma set_split_on: "p \<in> set (split_on c s) \<Longrightarrow> set p \<subseteq> set s"
proof (induction s arbitrary: p)
  case Nil
  then show ?case by simp
next
  case (Cons x s)
  show ?case
  proof (cases "x = c")
    case True
    then show ?thesis using Cons by auto
  next
    case False
    obtain w ws where w: "split_on c s = w # ws"
      using split_on_not_Nil [of c s] by (cases "split_on c s") auto
    have "set w \<subseteq> set s" using Cons.IH [of w] w by simp
    moreover have "q \<in> set ws \<Longrightarrow> set q \<subseteq> set s" for q using Cons.IH [of q] w by simp
    ultimately show ?thesis using Cons.prems False w by auto
  qed
qed

lemma index_last_split_on: "index_last (split_on c s) = Inr (last (split_on c s))"
  using split_on_not_Nil [of c s] by (cases "split_on c s") (auto simp: index_last_def)

lemma lstrip_spaces: "\<forall>c\<in>set a. is_space c \<Longrightarrow> dropWhile is_space (a @ v) = dropWhile is_space v"
  by (induction a) auto

lemma strip_spaces:
  assumes "\<forall>c\<in>set s. is_space c"
  shows "strip s = []"
  using assms by (auto simp: strip_def dest: set_dropWhileD)

lemma strip_append_spaces:
  assumes "\<forall>c\<in>set b. is_space c"
  shows "strip (v @ b) = strip v"
proof (cases "\<forall>c\<in>set v. is_space c")
  case True
  then have "\<forall>c\<in>set (v @ b). is_space c" using assms by auto
  then have "strip (v @ b) = []" by (rule strip_spaces)
  moreover have "strip v = []" using True by (rule strip_spaces)
  ultimately show ?thesis by simp
next
  case False
  then have "dropWhile is_space (v @ b) = dropWhile is_space v @ b"
    by (auto simp: dropWhile_append1)
  moreover have "dropWhile is_space (rev b @ x) = dropWhile is_space x" for x
    using assms by (intro lstrip_spaces) simp
  ultimately show ?thesis by (simp add: strip_def)
qed

lemma strip_prepend_spaces: "\<forall>c\<in>set a. is_space c \<Longrightarrow> strip (a @ v) = strip v"
  by (simp add: strip_def lstrip_spaces)

lemma strip_decompose:
  "\<exists>a b. p = a @ strip p @ b \<and> (\<forall>c\<in>set a. is_space c) \<and> (\<forall>c\<in>set b. is_space c)"
proof -
  define a where "a = takeWhile is_space p"
  define x where "x = dropWhile is_space p"
  define b where "b = rev (takeWhile is_space (rev x))"
  have "strip p @ b = rev (takeWhile is_space (rev x) @ dropWhile is_space (rev x))"
    unfolding strip_def b_def x_def by (simp only: rev_append)
  also have "\<dots> = rev (rev x)" by (simp only: takeWhile_dropWhile_id)
  finally have "x = strip p @ b" by simp
  moreover have "p = a @ x" by (simp add: a_def x_def)
  moreover have "\<forall>c\<in>set a. is_space c" by (auto simp: a_def dest: set_takeWhileD)
  moreover have "\<forall>c\<in>set b. is_space c" by (auto simp: b_def dest: set_takeWhileD)
  ultimately show ?thesis by blast
qed

lemma strip_strip: "strip (strip p) = strip p"
proof -
  obtain a b where p: "p = a @ strip p @ b" and a: "\<forall>c\<in>set a. is_space c"
    and b: "\<forall>c\<in>set b. is_space c"
    using strip_decompose [of p] by blast
  have "strip p = strip (a @ strip p @ b)" using p by simp
  also have "\<dots> = strip (strip p @ b)" using a by (rule strip_prepend_spaces)
  also have "\<dots> = strip (strip p)" using b by (rule strip_append_spaces)
  finally show ?thesis by simp
qed

lemma colon_not_space: "\<not> is_space colon"
  by (simp add: is_space_def colon_def)

lemma last_segment_strip: "strip (last (split_on colon (strip p))) = last_segment p"
proof -
  obtain a b where p: "p = a @ strip p @ b" and a: "\<forall>c\<in>set a. is_space c"
    and b: "\<forall>c\<in>set b. is_space c"
    using strip_decompose [of p] by blast
  have ca: "colon \<notin> set a" using a colon_not_space by blast
  have cb: "colon \<notin> set b" using b colon_not_space by blast
  show ?thesis
  proof (cases "colon \<in> set (strip p)")
    case False
    then have "colon \<notin> set p" using ca cb p by (metis Un_iff set_append)
    then show ?thesis using False
      by (simp add: last_segment_def last_split_on_without_sep strip_strip)
  next
    case True
    then obtain u v where uv: "strip p = u @ colon # v" and v: "colon \<notin> set v"
      using split_list_last [of colon "strip p"] by blast
    have "p = (a @ u) @ colon # (v @ b)" using p uv by simp
    moreover have "colon \<notin> set (v @ b)" using v cb by simp
    ultimately have "last (split_on colon p) = v @ b"
      using last_split_on_append_sep [of colon "v @ b" "a @ u"] by simp
    moreover have "last (split_on colon (strip p)) = v"
      using last_split_on_append_sep [of colon v u] uv v by simp
    ultimately show ?thesis using b by (simp add: last_segment_def strip_append_spaces)
  qed
qed

lemma clean_parts_eq:
  "clean_parts parts acc = Inr (acc @ filter (\<lambda>t. t \<noteq> []) (map last_segment parts))"
  by (induction parts arbitrary: acc)
     (simp_all add: index_last_split_on last_segment_strip Let_def)

lemma clean_entries_eq:
  "clean_entries (map JStr raw) acc =
     Inr (acc @ reference_clean_skills (replace skills_marker []) raw)"
  by (induction raw arbitrary: acc)
     (simp_all add: clean_parts_eq reference_clean_skills_def del: clean_parts.simps)

lemma clean_skills_eq:
  "clean_skills (JArr (map JStr raw)) = Inr (reference_clean_skills (replace skills_marker []) raw)"
  by (simp add: clean_skills_def iterate_def clean_entries_eq)

lemma replace_without_occurrence:
  "m \<noteq> [] \<Longrightarrow> \<not> occurs m s \<Longrightarrow> replace m n s = s"
  by (induction s) auto

lemma replace_leading:
  "m \<noteq> [] \<Longrightarrow> replace m n (m @ s) = n @ replace m n s"
  by (cases m) simp_all

lemma skills_marker_not_Nil: "skills_marker \<noteq> []"
  by (simp add: skills_marker_def ascii_def)

lemma remove_leading_marker_eq:
  assumes "\<not> occurs skills_marker (remove_leading_marker s)"
  shows "replace skills_marker [] s = remove_leading_marker s"
proof (cases "prefix skills_marker s")
  case True
  then obtain r where r: "s = skills_marker @ r" by (auto simp: prefix_def)
  then have "remove_leading_marker s = r" by (simp add: remove_leading_marker_def)
  then show ?thesis
    using assms r skills_marker_not_Nil
    by (simp add: replace_leading replace_without_occurrence)
next
  case False
  then show ?thesis
    using assms skills_marker_not_Nil
    by (simp add: remove_leading_marker_def replace_without_occurrence)
qed

lemma reference_agree:
  assumes "\<forall>s\<in>set raw. \<not> occurs skills_marker (remove_leading_marker s)"
  shows "reference_clean_skills (replace skills_marker []) raw =
         reference_clean_skills remove_leading_marker raw"
  using assms by (simp add: reference_clean_skills_def remove_leading_marker_eq cong: map_cong)

lemma replace_spaces:
  "\<forall>c\<in>set s. is_space c \<Longrightarrow> replace skills_marker [] s = s"
proof (induction s)
  case Nil
  then show ?case by (simp add: skills_marker_not_Nil)
next
  case (Cons c s)
  have "\<not> is_space 83" by (simp add: is_space_def)
  then have "c \<noteq> 83" using Cons.prems by auto
  then have "\<not> prefix skills_marker (c # s)" by (simp add: skills_marker_def ascii_def)
  then show ?case using Cons skills_marker_not_Nil by simp
qed

lemma last_segment_spaces: "\<forall>c\<in>set p. is_space c \<Longrightarrow> last_segment p = []"
proof -
  assume p: "\<forall>c\<in>set p. is_space c"
  have "last (split_on colon p) \<in> set (split_on colon p)"
    using split_on_not_Nil by simp
  then have "set (last (split_on colon p)) \<subseteq> set p" by (rule set_split_on)
  then show ?thesis using p by (auto simp: last_segment_def intro: strip_spaces)
qed

lemma reference_spaces:
  assumes "\<forall>s\<in>set raw. \<forall>c\<in>set s. is_space c"
  shows "reference_clean_skills (replace skills_marker []) raw = []"
proof -
  have "filter (\<lambda>t. t \<noteq> []) (map last_segment (split_on comma (replace skills_marker [] s))) = []"
    if "s \<in> set raw" for s
  proof -
    have s: "\<forall>c\<in>set s. is_space c" using assms that by blast
    have "last_segment p = []" if "p \<in> set (split_on comma s)" for p
      using set_split_on [OF that] s by (auto intro: last_segment_spaces)
    then show ?thesis using s by (simp add: replace_spaces filter_empty_conv)
  qed
  then show ?thesis by (simp add: reference_clean_skills_def)
qed

lemma blank_skills_clean:
  "\<forall>s\<in>set raw. \<forall>c\<in>set s. is_space c \<Longrightarrow> clean_skills (JArr (map JStr raw)) = Inr []"
  by (simp add: clean_skills_eq reference_spaces)

lemma example_entry_clean:
  assumes a: "comma \<notin> set a" and b: "comma \<notin> set b"
    and x: "comma \<notin> set x" "colon \<notin> set x" "strip x = x" "x \<noteq> []"
    and y: "comma \<notin> set y" "colon \<notin> set y" "strip y = y" "y \<noteq> []"
    and m: "\<not> occurs skills_marker (32 # a @ [colon, 32] @ x @ [comma, 32] @ b @ [colon, 32] @ y)"
  shows "clean_skills (JArr [JStr (skills_marker @ 32 # a @ [colon, 32] @ x @ [comma, 32] @ b
                                     @ [colon, 32] @ y)]) = Inr [x, y]"
proof -
  define p where "p = 32 # a @ [colon, 32] @ x"
  define q where "q = 32 # b @ [colon, 32] @ y"
  have nc: "comma \<noteq> colon" "comma \<noteq> 32" "colon \<noteq> 32"
    by (simp_all add: comma_def colon_def)
  have sp: "\<forall>c\<in>set [32]. is_space c" by (simp add: is_space_def)
  have rest: "32 # a @ [colon, 32] @ x @ [comma, 32] @ b @ [colon, 32] @ y = p @ comma # q"
    by (simp add: p_def q_def)
  have "comma \<notin> set p" "comma \<notin> set q"
    using a b x y nc by (auto simp: p_def q_def)
  then have split: "split_on comma (p @ comma # q) = [p, q]"
    by (simp add: split_on_append_sep split_on_without_sep)
  have "p = (32 # a) @ colon # ([32] @ x)" by (simp add: p_def)
  moreover have "colon \<notin> set ([32] @ x)" using x nc by auto
  ultimately have "last (split_on colon p) = [32] @ x"
    using last_split_on_append_sep [of colon "[32] @ x" "32 # a"] by simp
  then have lp: "last_segment p = x"
    using strip_prepend_spaces [OF sp, of x] x by (simp add: last_segment_def)
  have "q = (32 # b) @ colon # ([32] @ y)" by (simp add: q_def)
  moreover have "colon \<notin> set ([32] @ y)" using y nc by auto
  ultimately have "last (split_on colon q) = [32] @ y"
    using last_split_on_append_sep [of colon "[32] @ y" "32 # b"] by simp
  then have lq: "last_segment q = y"
    using strip_prepend_spaces [OF sp, of y] y by (simp add: last_segment_def)
  have "replace skills_marker [] (skills_marker @ p @ comma # q)
      = [] @ replace skills_marker [] (p @ comma # q)"
    using skills_marker_not_Nil by (rule replace_leading)
  moreover have "replace skills_marker [] (p @ comma # q) = p @ comma # q"
    using skills_marker_not_Nil m unfolding rest by (rule replace_without_occurrence)
  ultimately have "replace skills_marker [] (skills_marker @ p @ comma # q) = p @ comma # q"
    by simp
  then have "reference_clean_skills (replace skills_marker []) [skills_marker @ p @ comma # q]
      = [x, y]"
    using x y by (simp add: reference_clean_skills_def split lp lq)
  then show ?thesis
    unfolding rest using clean_skills_eq [of "[skills_marker @ p @ comma # q]"] by simp
qed

lemma split_on_append:
  "split_on c (u @ v) =
     butlast (split_on c u) @ [last (split_on c u) @ hd (split_on c v)] @ tl (split_on c v)"
proof (induction u)
  case Nil
  show ?case using split_on_not_Nil [of c v] by simp
next
  case (Cons x u)
  obtain w ws where w: "split_on c u = w # ws"
    using split_on_not_Nil [of c u] by (cases "split_on c u") auto
  show ?case
  proof (cases "x = c")
    case True
    then show ?thesis using Cons w by simp
  next
    case False
    show ?thesis
    proof (cases ws)
      case Nil
      then show ?thesis using False Cons w by simp
    next
      case (Cons w' ws')
      then show ?thesis using False Cons.IH w by simp
    qed
  qed
qed

lemma blank_lines_drop:
  "\<forall>p\<in>set ps. \<forall>c\<in>set p. is_space c \<Longrightarrow> filter (\<lambda>q. strip q \<noteq> []) ps = []"
  by (induction ps) (simp_all add: strip_spaces)

lemma nonblank_lines_trim:
  assumes a: "\<forall>c\<in>set a. is_space c" and b: "\<forall>c\<in>set b. is_space c"
  shows "map strip (filter (\<lambda>q. strip q \<noteq> []) (split_on sep (a @ s @ b))) =
         map strip (filter (\<lambda>q. strip q \<noteq> []) (split_on sep s))"
proof -
  have right: "map strip (filter (\<lambda>q. strip q \<noteq> []) (split_on sep (t @ d))) =
         map strip (filter (\<lambda>q. strip q \<noteq> []) (split_on sep t))"
    if d: "\<forall>c\<in>set d. is_space c" for t d
  proof -
    have all: "\<forall>p\<in>set (split_on sep d). \<forall>c\<in>set p. is_space c"
      using set_split_on [of _ sep d] d by blast
    have "hd (split_on sep d) \<in> set (split_on sep d)"
      using split_on_not_Nil by simp
    then have hd: "\<forall>c\<in>set (hd (split_on sep d)). is_space c" using all by blast
    have "\<forall>p\<in>set (tl (split_on sep d)). \<forall>c\<in>set p. is_space c"
      using all by (meson list.set_sel(2) split_on_not_Nil)
    then have tl: "filter (\<lambda>q. strip q \<noteq> []) (tl (split_on sep d)) = []"
      by (rule blank_lines_drop)
    have s: "strip (last (split_on sep t) @ hd (split_on sep d)) = strip (last (split_on sep t))"
      using hd by (rule strip_append_spaces)
    have "map strip (filter (\<lambda>q. strip q \<noteq> []) (split_on sep (t @ d))) =
        map strip (filter (\<lambda>q. strip q \<noteq> []) (butlast (split_on sep t) @ [last (split_on sep t)]))"
      by (simp add: split_on_append [of sep t d] tl s)
    then show ?thesis using split_on_not_Nil [of sep t] by simp
  qed
  have left: "map strip (filter (\<lambda>q. strip q \<noteq> []) (split_on sep (d @ t))) =
         map strip (filter (\<lambda>q. strip q \<noteq> []) (split_on sep t))"
    if d: "\<forall>c\<in>set d. is_space c" for t d
  proof -
    have all: "\<forall>p\<in>set (split_on sep d). \<forall>c\<in>set p. is_space c"
      using set_split_on [of _ sep d] d by blast
    have "last (split_on sep d) \<in> set (split_on sep d)"
      using split_on_not_Nil by simp
    then have la: "\<forall>c\<in>set (last (split_on sep d)). is_space c" using all by blast
    have "\<forall>p\<in>set (butlast (split_on sep d)). \<forall>c\<in>set p. is_space c"
      using all by (meson in_set_butlastD)
    then have bl: "filter (\<lambda>q. strip q \<noteq> []) (butlast (split_on sep d)) = []"
      by (rule blank_lines_drop)
    have s: "strip (last (split_on sep d) @ hd (split_on sep t)) = strip (hd (split_on sep t))"
      using la by (rule strip_prepend_spaces)
    have "map strip (filter (\<lambda>q. strip q \<noteq> []) (split_on sep (d @ t))) =
        map strip (filter (\<lambda>q. strip q \<noteq> []) (hd (split_on sep t) # tl (split_on sep t)))"
      by (simp add: split_on_append [of sep d t] bl s)
    then show ?thesis using split_on_not_Nil [of sep t] by simp
  qed
  have "map strip (filter (\<lambda>q. strip q \<noteq> []) (split_on sep (a @ s @ b))) =
      map strip (filter (\<lambda>q. strip q \<noteq> []) (split_on sep (s @ b)))"
    using a by (rule left)
  also have "\<dots> = map strip (filter (\<lambda>q. strip q \<noteq> []) (split_on sep s))"
    using b by (rule right)
  finally show ?thesis .
qed

lemma nonblank_lines_strip:
  "map strip (filter (\<lambda>q. strip q \<noteq> []) (split_on sep (strip r))) =
   map strip (filter (\<lambda>q. strip q \<noteq> []) (split_on sep r))"
proof -
  obtain a b where r: "r = a @ strip r @ b" and a: "\<forall>c\<in>set a. is_space c"
    and b: "\<forall>c\<in>set b. is_space c"
    using strip_decompose [of r] by blast
  have "map strip (filter (\<lambda>q. strip q \<noteq> []) (split_on sep (a @ strip r @ b))) =
      map strip (filter (\<lambda>q. strip q \<noteq> []) (split_on sep (strip r)))"
    using a b by (rule nonblank_lines_trim)
  then show ?thesis using r by simp
qed

lemma comprehension_filter_map:
  "concat (map (\<lambda>q. if P q then [f q] else []) xs) = map f (filter P xs)"
  by (induction xs) simp_all

lemma split_questions_eq:
  "split_questions r =
     map (\<lambda>q. lstrip_chars question_markers (strip q))
       (filter (\<lambda>q. strip q \<noteq> []) (split_on newline r))"
proof -
  have "split_questions r =
     map (lstrip_chars question_markers)
       (map strip (filter (\<lambda>q. strip q \<noteq> []) (split_on newline (strip r))))"
    by (simp add: split_questions_def comprehension_filter_map)
  also have "\<dots> = map (lstrip_chars question_markers)
       (map strip (filter (\<lambda>q. strip q \<noteq> []) (split_on newline r)))"
    by (simp only: nonblank_lines_strip)
  finally show ?thesis by simp
qed

section \<open>The handler on the sample inputs\<close>

lemma example_loads_request:
  "example_loads example_request = Inr (JObj [(ascii ''userId'', JStr (ascii ''u1''))])"
  by (simp add: example_loads_def example_request_def ascii_def)

lemma example_loads_record: "example_loads example_record_text = Inr example_record"
  by (simp add: example_loads_def example_request_def example_record_text_def ascii_def)

lemma example_loads_blank: "example_loads blank_record_text = Inr blank_record"
  by (simp add: example_loads_def example_request_def example_record_text_def
      blank_record_text_def ascii_def)

lemma example_loads_empty: "example_loads (ascii ''{}'') = Inr (JObj [])"
  by (simp add: example_loads_def)

lemma example_user_id:
  "json_loads w = example_loads \<Longrightarrow>
   get_user_id w example_event = Inr (JStr (ascii ''u1''))"
  by (simp add: get_user_id_def dict_get_def loads_value_def example_event_def
      example_loads_request)

lemma example_file_key: "file_key w (JStr (ascii ''u1'')) = ascii ''generated/u1_parsed.json''"
  by (simp add: file_key_def ascii_def)

lemma u1_not_empty: "ascii ''u1'' \<noteq> []"
  by (simp add: ascii_def)

lemma example_fetch:
  assumes "json_loads w = example_loads"
    and "environ w (ascii ''BUCKET_NAME'') = Some (ascii ''resumes'')"
    and "s3_client w = None"
    and "s3_read w (ascii ''resumes'') (ascii ''generated/u1_parsed.json'') = Inr text"
    and "example_loads text = Inr parsed_data"
  shows "fetch_stage w example_event =
     (Continue parsed_data,
      [S3GetObject (ascii ''resumes'') (ascii ''generated/u1_parsed.json'')])"
proof -
  have "get_user_id w example_event = Inr (JStr (ascii ''u1''))"
    by (rule example_user_id) (rule assms(1))
  moreover have "read_parsed_data w (ascii ''resumes'') (JStr (ascii ''u1'')) = Inr parsed_data"
    by (simp add: read_parsed_data_def example_file_key assms)
  ultimately show ?thesis
    by (simp add: fetch_stage_def u1_not_empty example_file_key assms)
qed

lemma example_replace:
  "replace skills_marker [] (ascii ''SKILLS: a: x, b: y'') = ascii '' a: x, b: y''"
  by (simp add: skills_marker_def ascii_def)

lemma example_split: "split_on comma (ascii '' a: x, b: y'') = [ascii '' a: x'', ascii '' b: y'']"
  by (simp add: comma_def ascii_def)

lemma example_parts:
  "clean_parts [ascii '' a: x'', ascii '' b: y''] [] = Inr [ascii ''x'', ascii ''y'']"
  by (simp add: strip_def is_space_def colon_def index_last_def ascii_def)

lemma example_clean:
  "clean_skills (JArr [JStr (ascii ''SKILLS: a: x, b: y'')]) = Inr [ascii ''x'', ascii ''y'']"
  by (simp add: clean_skills_def iterate_def example_replace example_split example_parts
      del: clean_parts.simps)

lemma example_extract: "extract_skills example_record = Inr [ascii ''x'', ascii ''y'']"
proof -
  have "dict_get example_record (ascii ''skills'') (JArr [])
      = Inr (JArr [JStr (ascii ''SKILLS: a: x, b: y'')])"
    by (simp add: dict_get_def example_record_def)
  then show ?thesis
    by (simp add: extract_skills_def example_clean)
qed

lemma example_join: "join (ascii '', '') [ascii ''x'', ascii ''y''] = ascii ''x, y''"
  by (simp add: ascii_def)

lemma example_projects:
  "dict_get example_record (ascii ''projects'') (JStr []) = Inr (JStr (ascii ''p''))"
  by (simp add: dict_get_def example_record_def ascii_def)

lemma x_y_not_empty: "[ascii ''x'', ascii ''y''] \<noteq> []"
  by simp

lemma example_generate:
  "generate_stage example_world example_record =
     (Inr (success_response example_world (split_questions example_answer)
             [ascii ''x'', ascii ''y'']),
      [ChainRun (ascii ''x, y'') (JStr (ascii ''p''))])"
  by (simp add: generate_stage_def example_extract ask_model_def example_join example_projects
      example_world_def del: join.simps)

lemma blank_fetch:
  "fetch_stage blank_world example_event =
     (Continue blank_record,
      [S3GetObject (ascii ''resumes'') (ascii ''generated/u1_parsed.json'')])"
  by (rule example_fetch [OF _ _ _ _ example_loads_blank])
     (simp_all add: blank_world_def example_world_def)

lemma blank_skills:
  "dict_get blank_record (ascii ''skills'') (JArr []) = Inr (JArr (map JStr [ascii ''  '', []]))"
  by (simp add: dict_get_def blank_record_def)

lemma blank_raw: "\<forall>s\<in>set [ascii ''  '', []]. \<forall>c\<in>set s. is_space c"
  by (simp add: ascii_def is_space_def)

lemma example_handler:
  "lambda_handler example_world example_event =
     (success_response example_world (split_questions example_answer) [ascii ''x'', ascii ''y''],
      [S3GetObject (ascii ''resumes'') (ascii ''generated/u1_parsed.json''),
       ChainRun (ascii ''x, y'') (JStr (ascii ''p''))])"
proof -
  have f: "fetch_stage example_world example_event =
     (Continue example_record,
      [S3GetObject (ascii ''resumes'') (ascii ''generated/u1_parsed.json'')])"
    by (rule example_fetch [OF _ _ _ _ example_loads_record])
       (simp_all add: example_world_def)
  show ?thesis
    by (simp add: lambda_handler_def try_body_continue [OF f] example_generate)
qed

lemma example_lines:
  "split_on newline example_answer =
     [ascii ''1. What is X?'', ascii ''2) Explain Y'', ascii ''- Describe Z'']"
  by (simp add: example_answer_def ascii_def newline_def)

lemma example_line_1:
  "strip (ascii ''1. What is X?'') = ascii ''1. What is X?''"
  "lstrip_chars question_markers (ascii ''1. What is X?'') = ascii ''What is X?''"
  by (simp_all add: strip_def is_space_def lstrip_chars_def question_markers_def ascii_def)

lemma example_line_2:
  "strip (ascii ''2) Explain Y'') = ascii ''2) Explain Y''"
  "lstrip_chars question_markers (ascii ''2) Explain Y'') = ascii ''Explain Y''"
  by (simp_all add: strip_def is_space_def lstrip_chars_def question_markers_def ascii_def)

lemma example_line_3:
  "strip (ascii ''- Describe Z'') = ascii ''- Describe Z''"
  "lstrip_chars question_markers (ascii ''- Describe Z'') = ascii ''Describe Z''"
  by (simp_all add: strip_def is_space_def lstrip_chars_def question_markers_def ascii_def)

lemma example_lines_not_blank:
  "ascii ''1. What is X?'' \<noteq> []" "ascii ''2) Explain Y'' \<noteq> []" "ascii ''- Describe Z'' \<noteq> []"
  by (simp_all add: ascii_def)

lemma example_questions:
  "split_questions example_answer =
     [ascii ''What is X?'', ascii ''Explain Y'', ascii ''Describe Z'']"
  by (simp add: split_questions_eq example_lines example_line_1 example_line_2 example_line_3
      example_lines_not_blank)

lemma trailing_lines:
  "split_on newline (ascii ''7. Why?\<newline>\<newline>'') = [ascii ''7. Why?'', [], []]"
  by (simp add: ascii_def newline_def)

lemma trailing_line_1:
  "strip (ascii ''7. Why?'') = ascii ''7. Why?''"
  "lstrip_chars question_markers (ascii ''7. Why?'') = ascii ''Why?''"
  "ascii ''7. Why?'' \<noteq> []"
  by (simp_all add: strip_def is_space_def lstrip_chars_def question_markers_def ascii_def)

lemma strip_Nil: "strip [] = []"
  by (simp add: strip_def)

lemma marker_only_line:
  "split_on newline (ascii ''1.'') = [ascii ''1.'']"
  "strip (ascii ''1.'') = ascii ''1.''"
  "lstrip_chars question_markers (ascii ''1.'') = []"
  "ascii ''1.'' \<noteq> []"
  by (simp_all add: strip_def is_space_def lstrip_chars_def question_markers_def ascii_def
      newline_def)

lemma tab_line:
  "split_on newline (ascii ''1.'' @ 9 # ascii ''X'') = [ascii ''1.'' @ 9 # ascii ''X'']"
  "strip (ascii ''1.'' @ 9 # ascii ''X'') = ascii ''1.'' @ 9 # ascii ''X''"
  "lstrip_chars question_markers (ascii ''1.'' @ 9 # ascii ''X'') = 9 # ascii ''X''"
  "ascii ''1.'' @ 9 # ascii ''X'' \<noteq> []"
  "strip (9 # ascii ''X'') = ascii ''X''"
  by (simp_all add: strip_def is_space_def lstrip_chars_def question_markers_def ascii_def
      newline_def)

lemma counter_replace:
  "replace skills_marker [] (ascii ''a SKILLS: b'') = ascii ''a  b''"
  by (simp add: skills_marker_def ascii_def)

lemma counter_split: "split_on comma (ascii ''a  b'') = [ascii ''a  b'']"
  by (simp add: comma_def ascii_def)

lemma counter_segment: "last_segment (ascii ''a  b'') = ascii ''a  b''"
  by (simp add: last_segment_def strip_def is_space_def colon_def ascii_def)

lemma counter_not_leading: "remove_leading_marker (ascii ''a SKILLS: b'') = ascii ''a SKILLS: b''"
  by (simp add: remove_leading_marker_def skills_marker_def ascii_def)

lemma counter_split_spec: "split_on comma (ascii ''a SKILLS: b'') = [ascii ''a SKILLS: b'']"
  by (simp add: comma_def ascii_def)

lemma counter_segment_spec: "last_segment (ascii ''a SKILLS: b'') = ascii ''b''"
  by (simp add: last_segment_def strip_def is_space_def colon_def ascii_def)

lemma counter_not_Nil: "ascii ''a  b'' \<noteq> []" "ascii ''b'' \<noteq> []"
  by (simp_all add: ascii_def)

lemma example_entry:
  "ascii ''SKILLS: '' @ ascii ''a'' @ ascii '': '' @ ascii ''x'' @ ascii '', '' @ ascii ''b''
     @ ascii '': '' @ ascii ''y'' = ascii ''SKILLS: a: x, b: y''"
  by (simp add: ascii_def)

lemma example_entry_hyps:
  "comma \<notin> set (ascii ''a'')" "comma \<notin> set (ascii ''b'')"
  "comma \<notin> set (ascii ''x'')" "colon \<notin> set (ascii ''x'')"
  "strip (ascii ''x'') = ascii ''x''" "ascii ''x'' \<noteq> []"
  "comma \<notin> set (ascii ''y'')" "colon \<notin> set (ascii ''y'')"
  "strip (ascii ''y'') = ascii ''y''" "ascii ''y'' \<noteq> []"
  by (simp_all add: ascii_def comma_def colon_def strip_def is_space_def)

lemma example_entry_marker:
  "\<not> occurs skills_marker
     (ascii '' '' @ ascii ''a'' @ ascii '': '' @ ascii ''x'' @ ascii '', '' @ ascii ''b''
        @ ascii '': '' @ ascii ''y'')"
  by (simp add: ascii_def skills_marker_def)

lemma example_entry_leading:
  "\<forall>s\<in>set [ascii ''SKILLS: a: x, b: y'']. \<not> occurs skills_marker (remove_leading_marker s)"
  by (simp add: remove_leading_marker_def ascii_def skills_marker_def)

lemma sample_dumps_error:
  "sample_dumps (JObj [(ascii ''error'', JStr m)]) = ascii ''error='' @ m"
  by (simp add: sample_dumps_def ascii_def)

lemma strict_loads:
  "json_loads strict_world empty_id_request = Inr (JObj [(ascii ''userId'', JStr [])])"
  "json_loads strict_world (ascii ''{}'') = Inr (JObj [])"
  "json_loads strict_world (ascii ''nope'') = Inl (Exn ''JSONDecodeError'' (ascii ''Expecting value''))"
  by (simp_all add: strict_world_def empty_id_request_def example_loads_def example_request_def
      example_record_text_def blank_record_text_def ascii_def)

lemma strict_dumps: "json_dumps strict_world = sample_dumps"
  by (simp add: strict_world_def)

lemma failing_model_fetch:
  "fetch_stage failing_model_world example_event =
     (Continue example_record,
      [S3GetObject (ascii ''resumes'') (ascii ''generated/u1_parsed.json'')])"
  by (rule example_fetch [OF _ _ _ _ example_loads_record])
     (simp_all add: failing_model_world_def example_world_def)

lemma failing_client_fetch:
  "fetch_stage failing_client_world example_event =
     (Continue example_record,
      [S3GetObject (ascii ''resumes'') (ascii ''generated/u1_parsed.json'')])"
  by (rule example_fetch [OF _ _ _ _ example_loads_record])
     (simp_all add: failing_client_world_def example_world_def)

lemma failing_model_fields:
  "bedrock_client failing_model_world = None" "bedrock_llm failing_model_world = None"
  "prompt_template failing_model_world = None" "llm_chain failing_model_world = None"
  "chain_run failing_model_world (join (ascii '', '') [ascii ''x'', ascii ''y''])
     (JStr (ascii ''p'')) = Inl (Exn ''ReadTimeoutError'' (ascii ''timed out''))"
  "json_dumps failing_model_world = sample_dumps"
  by (simp_all add: failing_model_world_def example_world_def del: join.simps)

lemma failing_client_fields:
  "bedrock_client failing_client_world = Some (Exn ''NoRegionError'' (ascii ''no region''))"
  "json_dumps failing_client_world = sample_dumps"
  by (simp_all add: failing_client_world_def)

lemma missing_object_fields:
  "s3_client missing_object_world = None"
  "environ missing_object_world (ascii ''BUCKET_NAME'') = Some (ascii ''resumes'')"
  "s3_read missing_object_world (ascii ''resumes'') (file_key missing_object_world (JStr (ascii ''u1'')))
     = Inl (Exn ''NoSuchKey'' (ascii ''not found''))"
  "json_dumps missing_object_world = sample_dumps"
  by (simp_all add: missing_object_world_def example_world_def)

lemma blank_dumps: "json_dumps blank_world = sample_dumps"
  by (simp add: blank_world_def)

section \<open>The claims\<close>

text \<open>
  Claim C1, with the removal of the marker as the code does it. On a list of raw skill
  strings \<open>clean_skills\<close> never raises and returns what the reference algorithm
  returns when the marker is removed by \<open>replace\<close>: in every entry each occurrence of
  \<open>SKILLS:\<close> is removed (not only a leading one), the rest is split on commas, of
  every piece the segment after its last colon is taken and trimmed, empty results are
  dropped, and the results are listed in input order with duplicates kept. When in no
  entry the marker occurs after a leading marker has been removed, this is the
  algorithm that strips a leading marker only. An entry \<open>SKILLS: a: x, b: y\<close>, whose
  labels and skills hold no comma, whose skills hold no colon and are trimmed and not
  empty, and in which the marker does not occur again, gives \<open>[x, y]\<close>.
\<close>

theorem clean_skills_refines:
  "clean_skills (JArr (map JStr raw)) =
     Inr (reference_clean_skills (replace skills_marker []) raw)
   \<and> ((\<forall>s\<in>set raw. \<not> occurs skills_marker (remove_leading_marker s)) \<longrightarrow>
      clean_skills (JArr (map JStr raw)) = Inr (reference_clean_skills remove_leading_marker raw))
   \<and> (comma \<notin> set a \<and> comma \<notin> set b \<and>
      comma \<notin> set x \<and> colon \<notin> set x \<and> strip x = x \<and> x \<noteq> [] \<and>
      comma \<notin> set y \<and> colon \<notin> set y \<and> strip y = y \<and> y \<noteq> [] \<and>
      \<not> occurs skills_marker
          (ascii '' '' @ a @ ascii '': '' @ x @ ascii '', '' @ b @ ascii '': '' @ y) \<longrightarrow>
      clean_skills (JArr [JStr (ascii ''SKILLS: '' @ a @ ascii '': '' @ x @ ascii '', '' @ b
                                  @ ascii '': '' @ y)]) = Inr [x, y])"
proof (intro conjI impI)
  show "clean_skills (JArr (map JStr raw)) =
     Inr (reference_clean_skills (replace skills_marker []) raw)"
    by (rule clean_skills_eq)
next
  assume "\<forall>s\<in>set raw. \<not> occurs skills_marker (remove_leading_marker s)"
  then show "clean_skills (JArr (map JStr raw)) =
     Inr (reference_clean_skills remove_leading_marker raw)"
    by (simp add: clean_skills_eq reference_agree)
next
  have t: "ascii '' '' = [32]" "ascii '': '' = [colon, 32]" "ascii '', '' = [comma, 32]"
    "ascii ''SKILLS: '' = skills_marker @ [32]"
    by (simp_all add: ascii_def colon_def comma_def skills_marker_def)
  assume "comma \<notin> set a \<and> comma \<notin> set b \<and>
      comma \<notin> set x \<and> colon \<notin> set x \<and> strip x = x \<and> x \<noteq> [] \<and>
      comma \<notin> set y \<and> colon \<notin> set y \<and> strip y = y \<and> y \<noteq> [] \<and>
      \<not> occurs skills_marker
          (ascii '' '' @ a @ ascii '': '' @ x @ ascii '', '' @ b @ ascii '': '' @ y)"
  then show "clean_skills (JArr [JStr (ascii ''SKILLS: '' @ a @ ascii '': '' @ x @ ascii '', '' @ b
                                  @ ascii '': '' @ y)]) = Inr [x, y]"
    unfolding t using example_entry_clean [of a b x y] by simp
qed

theorem clean_skills_refines_witness:
  "clean_skills (JArr (map JStr [ascii ''SKILLS: a: x, b: y''])) =
     Inr (reference_clean_skills remove_leading_marker [ascii ''SKILLS: a: x, b: y'']) \<and>
   clean_skills (JArr [JStr (ascii ''SKILLS: a: x, b: y'')]) = Inr [ascii ''x'', ascii ''y'']"
  using clean_skills_refines [of "[ascii ''SKILLS: a: x, b: y'']" "ascii ''a''" "ascii ''b''"
      "ascii ''x''" "ascii ''y''"]
    example_entry_leading example_entry_hyps example_entry_marker
  unfolding example_entry by blast

theorem leading_marker_counterexample:
  "clean_skills (JArr [JStr (ascii ''a SKILLS: b'')]) = Inr [ascii ''a  b''] \<and>
   reference_clean_skills remove_leading_marker [ascii ''a SKILLS: b''] = [ascii ''b'']"
  by (simp add: clean_skills_def iterate_def clean_parts_eq counter_replace counter_split
      counter_segment counter_not_leading counter_split_spec counter_segment_spec
      counter_not_Nil reference_clean_skills_def del: clean_parts.simps)

text \<open>
  Claim C2, with the steps in the order of the code. The questions are computed from
  the lines of the answer, split on newlines (trimming the whole answer first, as the
  code does, changes nothing): the lines that are blank are left out, every other line
  is trimmed and then loses its leading marker characters, among them the digits,
  \<open>.\<close>, \<open>)\<close>, \<open>-\<close> and the space. Nothing is trimmed or left out after the
  markers are stripped. The answer made of the three lines \<open>1. What is X?\<close>,
  \<open>2) Explain Y\<close> and \<open>- Describe Z\<close> gives the three questions \<open>What is X?\<close>,
  \<open>Explain Y\<close>, \<open>Describe Z\<close>.
\<close>

theorem split_questions_spec:
  "split_questions r =
     map (\<lambda>q. lstrip_chars question_markers (strip q))
       (filter (\<lambda>q. strip q \<noteq> []) (split_on newline r))
   \<and> set (ascii ''0123456789.)- '') \<subseteq> set question_markers
   \<and> split_questions example_answer =
       [ascii ''What is X?'', ascii ''Explain Y'', ascii ''Describe Z'']"
proof (intro conjI)
  show "split_questions r =
     map (\<lambda>q. lstrip_chars question_markers (strip q))
       (filter (\<lambda>q. strip q \<noteq> []) (split_on newline r))"
    by (rule split_questions_eq)
  show "set (ascii ''0123456789.)- '') \<subseteq> set question_markers"
    by (simp add: question_markers_def ascii_def)
  show "split_questions example_answer =
       [ascii ''What is X?'', ascii ''Explain Y'', ascii ''Describe Z'']"
    by (rule example_questions)
qed

theorem split_questions_spec_witness:
  "split_questions (ascii ''7. Why?\<newline>\<newline>'') = [ascii ''Why?'']"
  using split_questions_spec [of "ascii ''7. Why?\<newline>\<newline>''"]
  by (simp add: trailing_lines trailing_line_1 strip_Nil)

theorem blank_question_counterexample:
  "split_questions (ascii ''1.'') = [[]] \<and>
   split_questions (ascii ''1.'' @ 9 # ascii ''X'') = [9 # ascii ''X''] \<and>
   strip (9 # ascii ''X'') \<noteq> 9 # ascii ''X''"
  by (simp add: split_questions_def marker_only_line tab_line)

text \<open>
  Claim C3. When the storage read has given a record whose cleaned skills are empty, the
  handler answers with status 400, the body \<open>json.dumps({'error': 'No skills found in
  parsed data'})\<close> and the two headers, and the storage read is the only outside call it
  has made, so there is no inference call; a skills list whose entries are all empty or
  made of whitespace gives that answer; and whenever the model is called, the skills
  string passed to it is the comma-joined list of cleaned skills of the record, which is
  not empty.
\<close>

theorem no_skills_is_400:
  "(fetch_stage w event = (Continue parsed_data, calls) \<and> extract_skills parsed_data = Inr [] \<longrightarrow>
      statusCode (fst (lambda_handler w event)) = 400 \<and>
      body (fst (lambda_handler w event)) =
        json_dumps w (JObj [(ascii ''error'', JStr (ascii ''No skills found in parsed data''))]) \<and>
      headers (fst (lambda_handler w event)) = cors_headers \<and>
      snd (lambda_handler w event) = calls \<and>
      (\<forall>c\<in>set (snd (lambda_handler w event)). \<not> is_inference c))
   \<and> (fetch_stage w event = (Continue parsed_data, calls) \<and>
       dict_get parsed_data (ascii ''skills'') (JArr []) = Inr (JArr (map JStr raw)) \<and>
       (\<forall>s\<in>set raw. \<forall>c\<in>set s. is_space c) \<longrightarrow>
      extract_skills parsed_data = Inr [] \<and>
      statusCode (fst (lambda_handler w event)) = 400 \<and>
      body (fst (lambda_handler w event)) =
        json_dumps w (JObj [(ascii ''error'', JStr (ascii ''No skills found in parsed data''))]) \<and>
      headers (fst (lambda_handler w event)) = cors_headers \<and>
      snd (lambda_handler w event) = calls \<and>
      (\<forall>c\<in>set (snd (lambda_handler w event)). \<not> is_inference c))
   \<and> (ChainRun skills_str projects \<in> set (snd (lambda_handler w event)) \<longrightarrow>
      (\<exists>pd cs skills. fetch_stage w event = (Continue pd, cs) \<and>
         extract_skills pd = Inr skills \<and> skills \<noteq> [] \<and>
         skills_str = join (ascii '', '') skills))"
proof -
  have a: "statusCode (fst (lambda_handler w event)) = 400 \<and>
      body (fst (lambda_handler w event)) =
        json_dumps w (JObj [(ascii ''error'', JStr (ascii ''No skills found in parsed data''))]) \<and>
      headers (fst (lambda_handler w event)) = cors_headers \<and>
      snd (lambda_handler w event) = calls \<and>
      (\<forall>c\<in>set (snd (lambda_handler w event)). \<not> is_inference c)"
    if f: "fetch_stage w event = (Continue parsed_data, calls)"
      and e: "extract_skills parsed_data = Inr []"
  proof -
    have r: "lambda_handler w event =
        (error_response w 400 (ascii ''No skills found in parsed data''), calls)"
      using f e by (simp add: lambda_handler_def try_body_continue generate_stage_def)
    have "snd (fetch_stage w event) = calls" using f by simp
    then have "\<forall>c\<in>set calls. \<not> is_inference c"
      using fetch_stage_no_inference [of _ w event] by auto
    then show ?thesis
      using r by (simp add: error_response_def)
  qed
  have b: "extract_skills parsed_data = Inr []"
    if "dict_get parsed_data (ascii ''skills'') (JArr []) = Inr (JArr (map JStr raw))"
      and "\<forall>s\<in>set raw. \<forall>c\<in>set s. is_space c"
    using that by (simp add: extract_skills_def blank_skills_clean)
  have c: "\<exists>pd cs skills. fetch_stage w event = (Continue pd, cs) \<and>
         extract_skills pd = Inr skills \<and> skills \<noteq> [] \<and>
         skills_str = join (ascii '', '') skills"
    if "ChainRun skills_str projects \<in> set (snd (lambda_handler w event))"
    using that by (rule model_call_skills)
  show ?thesis
    using a b c by blast
qed

theorem no_skills_is_400_witness:
  "statusCode (fst (lambda_handler blank_world example_event)) = 400 \<and>
   body (fst (lambda_handler blank_world example_event)) =
     ascii ''error='' @ ascii ''No skills found in parsed data'' \<and>
   snd (lambda_handler blank_world example_event) =
     [S3GetObject (ascii ''resumes'') (ascii ''generated/u1_parsed.json'')] \<and>
   filter is_inference (snd (lambda_handler blank_world example_event)) = [] \<and>
   extract_skills blank_record = Inr [] \<and>
   ChainRun (ascii ''x, y'') (JStr (ascii ''p''))
     \<in> set (snd (lambda_handler example_world example_event)) \<and>
   (\<exists>pd cs skills. fetch_stage example_world example_event = (Continue pd, cs) \<and>
      extract_skills pd = Inr skills \<and> skills \<noteq> [] \<and>
      ascii ''x, y'' = join (ascii '', '') skills)"
proof -
  note blank = no_skills_is_400 [of blank_world example_event blank_record
      "[S3GetObject (ascii ''resumes'') (ascii ''generated/u1_parsed.json'')]"
      "[ascii ''  '', []]"]
  have r: "extract_skills blank_record = Inr [] \<and>
      statusCode (fst (lambda_handler blank_world example_event)) = 400 \<and>
      body (fst (lambda_handler blank_world example_event)) =
        json_dumps blank_world
          (JObj [(ascii ''error'', JStr (ascii ''No skills found in parsed data''))]) \<and>
      headers (fst (lambda_handler blank_world example_event)) = cors_headers \<and>
      snd (lambda_handler blank_world example_event) =
        [S3GetObject (ascii ''resumes'') (ascii ''generated/u1_parsed.json'')] \<and>
      (\<forall>c\<in>set (snd (lambda_handler blank_world example_event)). \<not> is_inference c)"
    using blank blank_fetch blank_skills blank_raw by blast
  then have f: "filter is_inference (snd (lambda_handler blank_world example_event)) = []"
    by (simp add: filter_empty_conv)
  have b: "body (fst (lambda_handler blank_world example_event)) =
     ascii ''error='' @ ascii ''No skills found in parsed data''"
    using r by (simp add: blank_dumps sample_dumps_error)
  have c: "ChainRun (ascii ''x, y'') (JStr (ascii ''p''))
     \<in> set (snd (lambda_handler example_world example_event))"
    by (simp add: example_handler)
  have m: "\<exists>pd cs skills. fetch_stage example_world example_event = (Continue pd, cs) \<and>
      extract_skills pd = Inr skills \<and> skills \<noteq> [] \<and>
      ascii ''x, y'' = join (ascii '', '') skills"
    using c
      no_skills_is_400 [of example_world example_event _ _ _ "ascii ''x, y''" "JStr (ascii ''p'')"]
    by blast
  show ?thesis using r f b c m by blast
qed

text \<open>
  Claim C4. With a user id that passes validation, a storage client and a bucket name,
  a storage read that fails (the object store raises, or the text read is not JSON)
  makes the handler answer with status 404, the body \<open>json.dumps\<close> of the dictionary
  whose \<open>error\<close> is \<open>Failed to retrieve parsed data: \<close> followed by the text of the
  exception, and the two headers; the only outside call made is the storage read, so no
  inference call is made; the key read for a user id \<open>s\<close> is \<open>generated/s_parsed.json\<close>.
\<close>

theorem storage_failure_is_404:
  assumes "get_user_id w event = Inr user_id" and "truthy user_id"
    and "s3_client w = None"
    and "environ w (ascii ''BUCKET_NAME'') = Some bucket_name"
    and "s3_read w bucket_name (file_key w user_id) = Inl e \<or>
         (\<exists>text. s3_read w bucket_name (file_key w user_id) = Inr text \<and>
                 json_loads w text = Inl e)"
  shows "statusCode (fst (lambda_handler w event)) = 404 \<and>
         body (fst (lambda_handler w event)) =
           json_dumps w (JObj [(ascii ''error'',
             JStr (ascii ''Failed to retrieve parsed data: '' @ exn_text e))]) \<and>
         headers (fst (lambda_handler w event)) = cors_headers \<and>
         snd (lambda_handler w event) = [S3GetObject bucket_name (file_key w user_id)] \<and>
         filter is_inference (snd (lambda_handler w event)) = [] \<and>
         file_key w (JStr s) = ascii ''generated/'' @ s @ ascii ''_parsed.json''"
proof -
  from assms(5) have "read_parsed_data w bucket_name user_id = Inl e"
    by (auto simp add: read_parsed_data_def)
  with assms(1-4) have "fetch_stage w event =
      (Return (error_response w 404 (ascii ''Failed to retrieve parsed data: '' @ exn_text e)),
       [S3GetObject bucket_name (file_key w user_id)])"
    by (simp add: fetch_stage_def)
  then have r: "lambda_handler w event =
           (error_response w 404 (ascii ''Failed to retrieve parsed data: '' @ exn_text e),
            [S3GetObject bucket_name (file_key w user_id)])"
    by (simp add: try_body_return handler_of_return)
  have k: "file_key w (JStr s) = ascii ''generated/'' @ s @ ascii ''_parsed.json''"
    by (simp add: file_key_def)
  show ?thesis
    using r k by (simp add: error_response_def)
qed

theorem storage_failure_is_404_witness:
  "get_user_id missing_object_world example_event = Inr (JStr (ascii ''u1'')) \<and>
   truthy (JStr (ascii ''u1'')) \<and>
   s3_client missing_object_world = None \<and>
   environ missing_object_world (ascii ''BUCKET_NAME'') = Some (ascii ''resumes'') \<and>
   s3_read missing_object_world (ascii ''resumes'') (ascii ''generated/u1_parsed.json'')
     = Inl (Exn ''NoSuchKey'' (ascii ''not found'')) \<and>
   statusCode (fst (lambda_handler missing_object_world example_event)) = 404 \<and>
   body (fst (lambda_handler missing_object_world example_event)) =
     ascii ''error='' @ ascii ''Failed to retrieve parsed data: '' @ ascii ''not found'' \<and>
   snd (lambda_handler missing_object_world example_event) =
     [S3GetObject (ascii ''resumes'') (ascii ''generated/u1_parsed.json'')] \<and>
   filter is_inference (snd (lambda_handler missing_object_world example_event)) = []"
proof -
  have 1: "get_user_id missing_object_world example_event = Inr (JStr (ascii ''u1''))"
    by (rule example_user_id) (simp add: missing_object_world_def example_world_def)
  have 2: "truthy (JStr (ascii ''u1''))"
    by (simp add: u1_not_empty)
  note 3 = missing_object_fields(1)
  note 4 = missing_object_fields(2)
  note 5 = missing_object_fields(3)
  show ?thesis
    using storage_failure_is_404 [OF 1 2 3 4 disjI1 [OF 5]] 1 2 3 4 5
    by (simp add: example_file_key missing_object_fields(4) sample_dumps_error)
qed



text \<open>
  Claim C6. When the handler answers 200, the \<open>skills_used\<close> list encoded in the body
  is the list of cleaned skills of the record read from storage, and the last outside
  call is the call of the model with that same list joined by \<open>, \<close>.
\<close>

theorem skills_used_round_trip:
  assumes "statusCode (fst (lambda_handler w event)) = 200"
  shows "\<exists>parsed_data calls skills questions projects.
           fetch_stage w event = (Continue parsed_data, calls) \<and>
           extract_skills parsed_data = Inr skills \<and>
           body (fst (lambda_handler w event)) =
             json_dumps w (JObj [(ascii ''questions'', JArr (map JStr questions)),
                                 (ascii ''skills_used'', JArr (map JStr skills))]) \<and>
           snd (lambda_handler w event) = calls @ [ChainRun (join (ascii '', '') skills) projects]"
  using fetch_stage_cases [of w event]
proof (elim disjE exE)
  fix pd b k
  assume f: "fetch_stage w event = (Continue pd, [S3GetObject b k])"
  from generate_stage_cases [of w pd] show ?thesis
  proof (elim disjE exE conjE)
    fix skills result projects
    assume sk: "extract_skills pd = Inr skills"
      and g: "generate_stage w pd =
        (Inr (success_response w (split_questions result) skills),
         [ChainRun (join (ascii '', '') skills) projects])"
    from g have "lambda_handler w event =
        (success_response w (split_questions result) skills,
         [S3GetObject b k] @ [ChainRun (join (ascii '', '') skills) projects])"
      by (simp add: try_body_continue [OF f] lambda_handler_def)
    then have "body (fst (lambda_handler w event)) =
             json_dumps w (JObj [(ascii ''questions'', JArr (map JStr (split_questions result))),
                                 (ascii ''skills_used'', JArr (map JStr skills))])"
      and "snd (lambda_handler w event) =
             [S3GetObject b k] @ [ChainRun (join (ascii '', '') skills) projects]"
      by (simp_all add: body_success_response)
    with f sk show ?thesis by blast
  next
    fix e calls assume "generate_stage w pd = (Inl e, calls)"
    with assms show ?thesis
      by (simp add: try_body_continue [OF f] lambda_handler_def)
  next
    assume "generate_stage w pd =
      (Inr (error_response w 400 (ascii ''No skills found in parsed data'')), [])"
    with assms show ?thesis
      by (simp add: try_body_continue [OF f] lambda_handler_def)
  qed
next
  fix e assume "fetch_stage w event = (Raise e, [])"
  with assms show ?thesis by (simp add: try_body_raise handler_of_raise)
next
  assume "fetch_stage w event = (Return (error_response w 400 (ascii ''userId is required'')), [])"
  with assms show ?thesis by (simp add: try_body_return handler_of_return)
next
  fix e b k assume "fetch_stage w event =
       (Return (error_response w 404 (ascii ''Failed to retrieve parsed data: '' @ exn_text e)),
        [S3GetObject b k])"
  with assms show ?thesis by (simp add: try_body_return handler_of_return)
qed

theorem skills_used_round_trip_witness:
  "statusCode (fst (lambda_handler example_world example_event)) = 200 \<and>
   (\<exists>parsed_data calls skills questions projects.
       fetch_stage example_world example_event = (Continue parsed_data, calls) \<and>
       extract_skills parsed_data = Inr skills \<and>
       body (fst (lambda_handler example_world example_event)) =
         json_dumps example_world
           (JObj [(ascii ''questions'', JArr (map JStr questions)),
                  (ascii ''skills_used'', JArr (map JStr skills))]) \<and>
       snd (lambda_handler example_world example_event) =
         calls @ [ChainRun (join (ascii '', '') skills) projects])"
proof -
  have f: "fetch_stage example_world example_event =
     (Continue example_record,
      [S3GetObject (ascii ''resumes'') (ascii ''generated/u1_parsed.json'')])"
    by (rule example_fetch [OF _ _ _ _ example_loads_record])
       (simp_all add: example_world_def)
  have 1: "statusCode (fst (lambda_handler example_world example_event)) = 200"
    by (simp add: lambda_handler_def try_body_continue [OF f] example_generate)
  show ?thesis
    using skills_used_round_trip [OF 1] 1 by simp
qed

text \<open>
  Claim C7. When the storage read has given a record and a later step raises an
  exception \<open>e\<close> (the extraction of the skills, the constructor of the client, of the
  model, of the prompt or of the chain, or the call of the model), the handler answers
  with status 500, the body \<open>json.dumps\<close> of the dictionary whose \<open>error\<close> is
  \<open>Internal server error: \<close> followed by the text of \<open>e\<close>, and the two headers.
\<close>

theorem later_exception_is_500:
  assumes "fetch_stage w event = (Continue parsed_data, calls)"
    and "extract_skills parsed_data = Inl e \<or>
     (\<exists>skills. extract_skills parsed_data = Inr skills \<and> skills \<noteq> [] \<and>
        (bedrock_client w = Some e \<or>
         bedrock_client w = None \<and> bedrock_llm w = Some e \<or>
         bedrock_client w = None \<and> bedrock_llm w = None \<and> prompt_template w = Some e \<or>
         bedrock_client w = None \<and> bedrock_llm w = None \<and> prompt_template w = None \<and>
           llm_chain w = Some e \<or>
         bedrock_client w = None \<and> bedrock_llm w = None \<and> prompt_template w = None \<and>
           llm_chain w = None \<and>
           (\<exists>projects. dict_get parsed_data (ascii ''projects'') (JStr []) = Inr projects \<and>
              chain_run w (join (ascii '', '') skills) projects = Inl e)))"
  shows "statusCode (fst (lambda_handler w event)) = 500 \<and>
         body (fst (lambda_handler w event)) =
           json_dumps w (JObj [(ascii ''error'',
             JStr (ascii ''Internal server error: '' @ exn_text e))]) \<and>
         headers (fst (lambda_handler w event)) = cors_headers"
proof -
  have pr: "\<exists>projects. dict_get parsed_data (ascii ''projects'') (JStr []) = Inr projects"
    if "extract_skills parsed_data = Inr skills" for skills
    using that by (cases parsed_data) (auto simp add: extract_skills_def dict_get_def split: option.splits)
  from assms(2) have "fst (generate_stage w parsed_data) = Inl e"
  proof (elim disjE exE conjE)
    assume "extract_skills parsed_data = Inl e"
    then show ?thesis by (simp add: generate_stage_def)
  next
    fix skills
    assume "extract_skills parsed_data = Inr skills" "skills \<noteq> []" "bedrock_client w = Some e"
    then show ?thesis by (simp add: generate_stage_def ask_model_def)
  next
    fix skills
    assume "extract_skills parsed_data = Inr skills" "skills \<noteq> []"
      "bedrock_client w = None" "bedrock_llm w = Some e"
    then show ?thesis by (simp add: generate_stage_def ask_model_def)
  next
    fix skills
    assume s: "extract_skills parsed_data = Inr skills" "skills \<noteq> []"
      and c: "bedrock_client w = None" "bedrock_llm w = None" "prompt_template w = Some e"
    obtain projects where "dict_get parsed_data (ascii ''projects'') (JStr []) = Inr projects"
      using pr [OF s(1)] by blast
    then show ?thesis using s c by (simp add: generate_stage_def ask_model_def Let_def)
  next
    fix skills
    assume s: "extract_skills parsed_data = Inr skills" "skills \<noteq> []"
      and c: "bedrock_client w = None" "bedrock_llm w = None" "prompt_template w = None"
        "llm_chain w = Some e"
    obtain projects where "dict_get parsed_data (ascii ''projects'') (JStr []) = Inr projects"
      using pr [OF s(1)] by blast
    then show ?thesis using s c by (simp add: generate_stage_def ask_model_def Let_def)
  next
    fix skills projects
    assume s: "extract_skills parsed_data = Inr skills" "skills \<noteq> []"
      and c: "bedrock_client w = None" "bedrock_llm w = None" "prompt_template w = None"
        "llm_chain w = None"
      and p: "dict_get parsed_data (ascii ''projects'') (JStr []) = Inr projects"
        "chain_run w (join (ascii '', '') skills) projects = Inl e"
    then show ?thesis by (simp add: generate_stage_def ask_model_def Let_def)
  qed
  then obtain cs where "generate_stage w parsed_data = (Inl e, cs)"
    by (cases "generate_stage w parsed_data") simp
  then have "lambda_handler w event =
      (error_response w 500 (ascii ''Internal server error: '' @ exn_text e), calls @ cs)"
    using assms(1) by (simp add: try_body_continue handler_of_raise internal_error_def)
  then show ?thesis
    by (simp add: error_response_def)
qed

theorem later_exception_is_500_witness:
  "statusCode (fst (lambda_handler failing_model_world example_event)) = 500 \<and>
   body (fst (lambda_handler failing_model_world example_event)) =
     ascii ''error='' @ ascii ''Internal server error: '' @ ascii ''timed out'' \<and>
   statusCode (fst (lambda_handler failing_client_world example_event)) = 500 \<and>
   body (fst (lambda_handler failing_client_world example_event)) =
     ascii ''error='' @ ascii ''Internal server error: '' @ ascii ''no region''"
proof -
  have 1: "extract_skills example_record = Inl (Exn ''ReadTimeoutError'' (ascii ''timed out'')) \<or>
     (\<exists>skills. extract_skills example_record = Inr skills \<and> skills \<noteq> [] \<and>
        (bedrock_client failing_model_world = Some (Exn ''ReadTimeoutError'' (ascii ''timed out'')) \<or>
         bedrock_client failing_model_world = None \<and>
           bedrock_llm failing_model_world = Some (Exn ''ReadTimeoutError'' (ascii ''timed out'')) \<or>
         bedrock_client failing_model_world = None \<and> bedrock_llm failing_model_world = None \<and>
           prompt_template failing_model_world
             = Some (Exn ''ReadTimeoutError'' (ascii ''timed out'')) \<or>
         bedrock_client failing_model_world = None \<and> bedrock_llm failing_model_world = None \<and>
           prompt_template failing_model_world = None \<and>
           llm_chain failing_model_world = Some (Exn ''ReadTimeoutError'' (ascii ''timed out'')) \<or>
         bedrock_client failing_model_world = None \<and> bedrock_llm failing_model_world = None \<and>
           prompt_template failing_model_world = None \<and>
           llm_chain failing_model_world = None \<and>
           (\<exists>projects. dict_get example_record (ascii ''projects'') (JStr []) = Inr projects \<and>
              chain_run failing_model_world (join (ascii '', '') skills) projects
                = Inl (Exn ''ReadTimeoutError'' (ascii ''timed out'')))))"
    using example_extract example_projects failing_model_fields x_y_not_empty by blast
  have 2: "extract_skills example_record = Inl (Exn ''NoRegionError'' (ascii ''no region'')) \<or>
     (\<exists>skills. extract_skills example_record = Inr skills \<and> skills \<noteq> [] \<and>
        (bedrock_client failing_client_world = Some (Exn ''NoRegionError'' (ascii ''no region'')) \<or>
         bedrock_client failing_client_world = None \<and>
           bedrock_llm failing_client_world = Some (Exn ''NoRegionError'' (ascii ''no region'')) \<or>
         bedrock_client failing_client_world = None \<and> bedrock_llm failing_client_world = None \<and>
           prompt_template failing_client_world
             = Some (Exn ''NoRegionError'' (ascii ''no region'')) \<or>
         bedrock_client failing_client_world = None \<and> bedrock_llm failing_client_world = None \<and>
           prompt_template failing_client_world = None \<and>
           llm_chain failing_client_world = Some (Exn ''NoRegionError'' (ascii ''no region'')) \<or>
         bedrock_client failing_client_world = None \<and> bedrock_llm failing_client_world = None \<and>
           prompt_template failing_client_world = None \<and>
           llm_chain failing_client_world = None \<and>
           (\<exists>projects. dict_get example_record (ascii ''projects'') (JStr []) = Inr projects \<and>
              chain_run failing_client_world (join (ascii '', '') skills) projects
                = Inl (Exn ''NoRegionError'' (ascii ''no region'')))))"
    using example_extract failing_client_fields x_y_not_empty by blast
  show ?thesis
    using later_exception_is_500 [OF failing_model_fetch 1]
      later_exception_is_500 [OF failing_client_fetch 2]
    by (simp add: failing_model_fields(6) failing_client_fields(2) sample_dumps_error)
qed

text \<open>
  Claim C8. For every world and every event the handler returns a response: its status
  code is 200, 400, 404 or 500, its body is an output of \<open>json.dumps\<close>, and its
  headers give \<open>*\<close> for \<open>Access-Control-Allow-Origin\<close> and \<open>application/json\<close>
  for \<open>Content-Type\<close>.
\<close>

theorem handler_always_responds:
  "statusCode (fst (lambda_handler w event)) \<in> {200, 400, 404, 500} \<and>
   (\<exists>j. body (fst (lambda_handler w event)) = json_dumps w j) \<and>
   headers (fst (lambda_handler w event)) = cors_headers \<and>
   map_of (headers (fst (lambda_handler w event))) (ascii ''Access-Control-Allow-Origin'')
     = Some (ascii ''*'') \<and>
   map_of (headers (fst (lambda_handler w event))) (ascii ''Content-Type'')
     = Some (ascii ''application/json'')"
  using handler_shape [of w event]
proof (elim disjE exE conjE)
  fix e calls assume "lambda_handler w event = (internal_error w e, calls)"
  then show ?thesis
    by (auto simp add: cors_headers_lookup body_internal_error)
next
  fix code :: int and msg calls
  assume "code \<in> {400, 404}"
    and "lambda_handler w event = (error_response w code msg, calls)"
  then show ?thesis
    by (auto simp add: cors_headers_lookup)
next
  fix qs sk calls assume "lambda_handler w event = (success_response w qs sk, calls)"
  then show ?thesis
    by (auto simp add: cors_headers_lookup body_success_response)
qed

theorem handler_always_responds_witness:
  "statusCode (fst (lambda_handler example_world example_event)) \<in> {200, 400, 404, 500} \<and>
   headers (fst (lambda_handler example_world example_event)) = cors_headers"
  using handler_always_responds [of example_world example_event] by simp

text \<open>
  Claim C9. An event whose \<open>body\<close> is present and is not a string, or is a string
  that \<open>json.loads\<close> rejects, gets status 500 with the body \<open>json.dumps\<close> of the
  dictionary whose \<open>error\<close> is \<open>Internal server error: \<close> followed by the text of the
  exception, and no outside call is made; an event without \<open>body\<close> key is parsed as
  \<open>{}\<close> and gets status 400 with the body
  \<open>json.dumps({'error': 'userId is required'})\<close>.
\<close>

theorem unparseable_body_is_500:
  "(event = JObj ev \<and> map_of ev (ascii ''body'') = Some v \<and> (\<forall>s. v \<noteq> JStr s) \<longrightarrow>
      statusCode (fst (lambda_handler w event)) = 500 \<and>
      body (fst (lambda_handler w event)) =
        json_dumps w (JObj [(ascii ''error'',
          JStr (ascii ''Internal server error: ''
                @ ascii ''the JSON object must be str, bytes or bytearray, not ''
                @ ascii (type_name v)))]) \<and>
      headers (fst (lambda_handler w event)) = cors_headers \<and>
      snd (lambda_handler w event) = []) \<and>
   (event = JObj ev \<and> map_of ev (ascii ''body'') = Some (JStr s) \<and> json_loads w s = Inl e \<longrightarrow>
      statusCode (fst (lambda_handler w event)) = 500 \<and>
      body (fst (lambda_handler w event)) =
        json_dumps w (JObj [(ascii ''error'',
          JStr (ascii ''Internal server error: '' @ exn_text e))]) \<and>
      headers (fst (lambda_handler w event)) = cors_headers \<and>
      snd (lambda_handler w event) = []) \<and>
   (event = JObj ev \<and> map_of ev (ascii ''body'') = None \<and>
    json_loads w (ascii ''{}'') = Inr (JObj []) \<longrightarrow>
      statusCode (fst (lambda_handler w event)) = 400 \<and>
      body (fst (lambda_handler w event)) =
        json_dumps w (JObj [(ascii ''error'', JStr (ascii ''userId is required''))]) \<and>
      headers (fst (lambda_handler w event)) = cors_headers \<and>
      snd (lambda_handler w event) = [])"
  (is "?A \<and> ?B \<and> ?C")
proof -
  have a: "statusCode (fst (lambda_handler w event)) = 500 \<and>
      body (fst (lambda_handler w event)) =
        json_dumps w (JObj [(ascii ''error'',
          JStr (ascii ''Internal server error: ''
                @ ascii ''the JSON object must be str, bytes or bytearray, not ''
                @ ascii (type_name v)))]) \<and>
      headers (fst (lambda_handler w event)) = cors_headers \<and>
      snd (lambda_handler w event) = []"
    if h: "event = JObj ev" "map_of ev (ascii ''body'') = Some v" "\<forall>s. v \<noteq> JStr s"
  proof -
    have "get_user_id w event = Inl (Exn ''TypeError''
                 (ascii ''the JSON object must be str, bytes or bytearray, not ''
                  @ ascii (type_name v)))"
      using h by (cases v) (auto simp add: get_user_id_def dict_get_def loads_value_def)
    then have "fetch_stage w event = (Raise (Exn ''TypeError''
                 (ascii ''the JSON object must be str, bytes or bytearray, not ''
                  @ ascii (type_name v))), [])"
      by (simp add: fetch_stage_def)
    then have "lambda_handler w event =
        (error_response w 500
           (ascii ''Internal server error: ''
            @ ascii ''the JSON object must be str, bytes or bytearray, not ''
            @ ascii (type_name v)), [])"
      by (simp add: try_body_raise handler_of_raise internal_error_def)
    then show ?thesis
      by (simp add: error_response_def)
  qed
  have b: "statusCode (fst (lambda_handler w event)) = 500 \<and>
      body (fst (lambda_handler w event)) =
        json_dumps w (JObj [(ascii ''error'',
          JStr (ascii ''Internal server error: '' @ exn_text e))]) \<and>
      headers (fst (lambda_handler w event)) = cors_headers \<and>
      snd (lambda_handler w event) = []"
    if h: "event = JObj ev" "map_of ev (ascii ''body'') = Some (JStr s)" "json_loads w s = Inl e"
  proof -
    have "get_user_id w event = Inl e"
      using h by (auto simp add: get_user_id_def dict_get_def loads_value_def)
    then have "fetch_stage w event = (Raise e, [])"
      by (simp add: fetch_stage_def)
    then have "lambda_handler w event =
        (error_response w 500 (ascii ''Internal server error: '' @ exn_text e), [])"
      by (simp add: try_body_raise handler_of_raise internal_error_def)
    then show ?thesis
      by (simp add: error_response_def)
  qed
  have c: "statusCode (fst (lambda_handler w event)) = 400 \<and>
      body (fst (lambda_handler w event)) =
        json_dumps w (JObj [(ascii ''error'', JStr (ascii ''userId is required''))]) \<and>
      headers (fst (lambda_handler w event)) = cors_headers \<and>
      snd (lambda_handler w event) = []"
    if h: "event = JObj ev" "map_of ev (ascii ''body'') = None"
      "json_loads w (ascii ''{}'') = Inr (JObj [])"
  proof -
    have "get_user_id w event = Inr JNull"
      using h by (auto simp add: get_user_id_def dict_get_def loads_value_def)
    then have "fetch_stage w event =
        (Return (error_response w 400 (ascii ''userId is required'')), [])"
      by (simp add: fetch_stage_def)
    then have "lambda_handler w event = (error_response w 400 (ascii ''userId is required''), [])"
      by (simp add: try_body_return handler_of_return)
    then show ?thesis
      by (simp add: error_response_def)
  qed
  have "?A" by (intro impI, elim conjE, rule a, assumption+)
  moreover have "?B" by (intro impI, elim conjE, rule b, assumption+)
  moreover have "?C" by (intro impI, elim conjE, rule c, assumption+)
  ultimately show ?thesis by (intro conjI)
qed

theorem unparseable_body_is_500_witness:
  "statusCode (fst (lambda_handler strict_world (JObj [(ascii ''body'', JNull)]))) = 500 \<and>
   body (fst (lambda_handler strict_world (JObj [(ascii ''body'', JNull)]))) =
     ascii ''error='' @ ascii ''Internal server error: ''
       @ ascii ''the JSON object must be str, bytes or bytearray, not '' @ ascii ''NoneType'' \<and>
   snd (lambda_handler strict_world (JObj [(ascii ''body'', JNull)])) = [] \<and>
   statusCode (fst (lambda_handler strict_world
      (JObj [(ascii ''body'', JStr (ascii ''nope''))]))) = 500 \<and>
   body (fst (lambda_handler strict_world (JObj [(ascii ''body'', JStr (ascii ''nope''))]))) =
     ascii ''error='' @ ascii ''Internal server error: '' @ ascii ''Expecting value'' \<and>
   snd (lambda_handler strict_world (JObj [(ascii ''body'', JStr (ascii ''nope''))])) = [] \<and>
   statusCode (fst (lambda_handler strict_world (JObj []))) = 400 \<and>
   body (fst (lambda_handler strict_world (JObj []))) =
     ascii ''error='' @ ascii ''userId is required'' \<and>
   snd (lambda_handler strict_world (JObj [])) = []"
proof -
  have 1: "map_of [(ascii ''body'', JNull)] (ascii ''body'') = Some JNull"
    by simp
  have 2: "map_of [(ascii ''body'', JStr (ascii ''nope''))] (ascii ''body'')
      = Some (JStr (ascii ''nope''))"
    by simp
  have 3: "map_of ([] :: (pystr \<times> json) list) (ascii ''body'') = None"
    by simp
  have n: "\<forall>s. JNull \<noteq> JStr s"
    by simp
  have a: "statusCode (fst (lambda_handler strict_world (JObj [(ascii ''body'', JNull)]))) = 500 \<and>
      body (fst (lambda_handler strict_world (JObj [(ascii ''body'', JNull)]))) =
        json_dumps strict_world (JObj [(ascii ''error'',
          JStr (ascii ''Internal server error: ''
                @ ascii ''the JSON object must be str, bytes or bytearray, not ''
                @ ascii (type_name JNull)))]) \<and>
      headers (fst (lambda_handler strict_world (JObj [(ascii ''body'', JNull)]))) = cors_headers \<and>
      snd (lambda_handler strict_world (JObj [(ascii ''body'', JNull)])) = []"
    using unparseable_body_is_500
            [of "JObj [(ascii ''body'', JNull)]" "[(ascii ''body'', JNull)]" JNull strict_world]
      1 n by blast
  have b: "statusCode (fst (lambda_handler strict_world
          (JObj [(ascii ''body'', JStr (ascii ''nope''))]))) = 500 \<and>
      body (fst (lambda_handler strict_world (JObj [(ascii ''body'', JStr (ascii ''nope''))]))) =
        json_dumps strict_world (JObj [(ascii ''error'',
          JStr (ascii ''Internal server error: ''
                @ exn_text (Exn ''JSONDecodeError'' (ascii ''Expecting value''))))]) \<and>
      headers (fst (lambda_handler strict_world
          (JObj [(ascii ''body'', JStr (ascii ''nope''))]))) = cors_headers \<and>
      snd (lambda_handler strict_world (JObj [(ascii ''body'', JStr (ascii ''nope''))])) = []"
    using unparseable_body_is_500
            [of "JObj [(ascii ''body'', JStr (ascii ''nope''))]"
                "[(ascii ''body'', JStr (ascii ''nope''))]" _ strict_world "ascii ''nope''"
                "Exn ''JSONDecodeError'' (ascii ''Expecting value'')"]
      2 strict_loads(3) by blast
  have c: "statusCode (fst (lambda_handler strict_world (JObj []))) = 400 \<and>
      body (fst (lambda_handler strict_world (JObj []))) =
        json_dumps strict_world (JObj [(ascii ''error'', JStr (ascii ''userId is required''))]) \<and>
      headers (fst (lambda_handler strict_world (JObj []))) = cors_headers \<and>
      snd (lambda_handler strict_world (JObj [])) = []"
    using unparseable_body_is_500 [of "JObj []" "[]" _ strict_world] 3 strict_loads(2)
    by blast
  show ?thesis
    using a b c by (simp add: strict_dumps sample_dumps_error)
qed

text \<open>
  Claim C10. With a user id that passes validation and no \<open>BUCKET_NAME\<close> in the
  environment, the handler answers 500, not 404, and makes no storage read; when the
  storage client was created, the error is \<open>Internal server error: 'BUCKET_NAME'\<close>.
\<close>

theorem missing_bucket_name_is_500:
  assumes "get_user_id w event = Inr user_id" and "truthy user_id"
    and "environ w (ascii ''BUCKET_NAME'') = None"
  shows "statusCode (fst (lambda_handler w event)) = 500 \<and>
         snd (lambda_handler w event) = [] \<and>
         (s3_client w = None \<longrightarrow>
            fst (lambda_handler w event) =
              error_response w 500
                (ascii ''Internal server error: '' @ quoted (ascii ''BUCKET_NAME'')))"
proof (cases "s3_client w")
  case None
  with assms have "fetch_stage w event =
      (Raise (Exn ''KeyError'' (quoted (ascii ''BUCKET_NAME''))), [])"
    by (simp add: fetch_stage_def)
  then have "lambda_handler w event =
      (internal_error w (Exn ''KeyError'' (quoted (ascii ''BUCKET_NAME''))), [])"
    by (simp add: try_body_raise handler_of_raise)
  then show ?thesis
    by (simp add: internal_error_def)
next
  case (Some e)
  with assms have "fetch_stage w event = (Raise e, [])"
    by (simp add: fetch_stage_def)
  then have "lambda_handler w event = (internal_error w e, [])"
    by (simp add: try_body_raise handler_of_raise)
  with Some show ?thesis
    by simp
qed

theorem missing_bucket_name_is_500_witness:
  "get_user_id no_bucket_world example_event = Inr (JStr (ascii ''u1'')) \<and>
   truthy (JStr (ascii ''u1'')) \<and>
   environ no_bucket_world (ascii ''BUCKET_NAME'') = None \<and>
   s3_client no_bucket_world = None \<and>
   statusCode (fst (lambda_handler no_bucket_world example_event)) = 500 \<and>
   snd (lambda_handler no_bucket_world example_event) = [] \<and>
   fst (lambda_handler no_bucket_world example_event) =
     error_response no_bucket_world 500
       (ascii ''Internal server error: '' @ quoted (ascii ''BUCKET_NAME''))"
proof -
  have 1: "get_user_id no_bucket_world example_event = Inr (JStr (ascii ''u1''))"
    by (rule example_user_id) (simp add: no_bucket_world_def example_world_def)
  have 2: "truthy (JStr (ascii ''u1''))"
    by (simp add: u1_not_empty)
  have 3: "environ no_bucket_world (ascii ''BUCKET_NAME'') = None"
    by (simp add: no_bucket_world_def)
  have 4: "s3_client no_bucket_world = None"
    by (simp add: no_bucket_world_def example_world_def)
  show ?thesis
    using missing_bucket_name_is_500 [OF 1 2 3] 1 2 3 4 by simp
qed

end
